theory Spec2Isabelle
  imports Main
begin

section \<open>The iLO Redfish collector (collector.py)\<close>

text \<open>
  The collector asks a management controller for four Redfish resources and stores
  every answer twice: as a JSON file and as a MongoDB document. The program is
  almost entirely calls into the outside world (HTTP, the file system, the database
  driver, the clock, the process environment). The embedding keeps the control flow
  of every function of \<^verbatim>\<open>collector.py\<close> and makes the outside world a
  parameter: each external call reads its outcome (a value or a raised exception)
  from a \<open>world\<close> and appends the call to a list of events, in program order.
\<close>

subsection \<open>Python values and exceptions\<close>

text \<open>A \<^verbatim>\<open>datetime\<close> object (naive, as \<^verbatim>\<open>datetime.utcnow()\<close> returns it).\<close>

record datetime =
  dt_year :: nat
  dt_month :: nat
  dt_day :: nat
  dt_hour :: nat
  dt_minute :: nat
  dt_second :: nat
  dt_microsecond :: nat

text \<open>
  The values that travel through the collector: JSON documents, and the dictionary
  handed to \<^verbatim>\<open>insert_one\<close>, which also holds a \<^verbatim>\<open>datetime\<close>. A dictionary
  literal is the list of its items in the order they are written. A float is kept as the
  text Python prints for it: the collector never computes with a document.
\<close>

datatype pyval =
    VNone
  | VBool bool
  | VInt int
  | VFloat string
  | VStr string
  | VDate datetime
  | VList "pyval list"
  | VDict "(string \<times> pyval) list"

text \<open>
  Exceptions, each with its message \<^verbatim>\<open>str(e)\<close>. The first four are classes of
  \<^verbatim>\<open>requests.exceptions\<close> and subclasses of \<^verbatim>\<open>RequestException\<close>
  (\<^verbatim>\<open>JSONDecodeError\<close> is what \<^verbatim>\<open>Response.json()\<close> raises and has been a
  \<^verbatim>\<open>RequestException\<close> since requests 2.27). \<open>OtherException\<close> stands for every
  other subclass of \<^verbatim>\<open>Exception\<close>: \<^verbatim>\<open>OSError\<close>, pymongo's errors, and so on.
\<close>

datatype exn =
    ConnectionError string
  | Timeout string
  | HTTPError string
  | JSONDecodeError string
  | ValueError string
  | OtherException string

fun is_RequestException :: "exn \<Rightarrow> bool" where
  "is_RequestException (ConnectionError m) = True"
| "is_RequestException (Timeout m) = True"
| "is_RequestException (HTTPError m) = True"
| "is_RequestException (JSONDecodeError m) = True"
| "is_RequestException (ValueError m) = False"
| "is_RequestException (OtherException m) = False"

fun exn_str :: "exn \<Rightarrow> string" where
  "exn_str (ConnectionError m) = m"
| "exn_str (Timeout m) = m"
| "exn_str (HTTPError m) = m"
| "exn_str (JSONDecodeError m) = m"
| "exn_str (ValueError m) = m"
| "exn_str (OtherException m) = m"

subsection \<open>String functions of Python used by the collector\<close>

text \<open>\<^verbatim>\<open>s.strip(c)\<close> and \<^verbatim>\<open>s.replace(a, b)\<close> for one-character arguments, as the
  source calls them (\<^verbatim>\<open>endpoint.strip('/').replace('/', '_')\<close>).\<close>

definition py_strip :: "char \<Rightarrow> string \<Rightarrow> string" where
  "py_strip c s = rev (dropWhile (\<lambda>x. x = c) (rev (dropWhile (\<lambda>x. x = c) s)))"

definition py_replace :: "char \<Rightarrow> char \<Rightarrow> string \<Rightarrow> string" where
  "py_replace a b s = map (\<lambda>x. if x = a then b else x) s"

text \<open>\<^verbatim>\<open>sep.join(xs)\<close>.\<close>

fun py_join :: "string \<Rightarrow> string list \<Rightarrow> string" where
  "py_join sep [] = []"
| "py_join sep [x] = x"
| "py_join sep (x # y # ys) = x @ sep @ py_join sep (y # ys)"

text \<open>\<^verbatim>\<open>s.lower()\<close> on ASCII text.\<close>

definition lower_char :: "char \<Rightarrow> char" where
  "lower_char c =
     (case map_of (zip ''ABCDEFGHIJKLMNOPQRSTUVWXYZ'' ''abcdefghijklmnopqrstuvwxyz'') c of
        Some d \<Rightarrow> d
      | None \<Rightarrow> c)"

definition py_lower :: "string \<Rightarrow> string" where
  "py_lower s = map lower_char s"

text \<open>\<^verbatim>\<open>str(x)\<close> for \<open>x\<close> a string or \<^verbatim>\<open>None\<close>; also what an f-string writes for it.\<close>

fun py_str :: "string option \<Rightarrow> string" where
  "py_str None = ''None''"
| "py_str (Some s) = s"

text \<open>Truth value of a string or \<^verbatim>\<open>None\<close>: false for \<^verbatim>\<open>None\<close> and for the empty string.\<close>

fun py_truthy :: "string option \<Rightarrow> bool" where
  "py_truthy None = False"
| "py_truthy (Some s) = (s \<noteq> [])"

text \<open>Decimal numerals, \<^verbatim>\<open>"%d"\<close> and \<^verbatim>\<open>"%0wd"\<close>.\<close>

definition digit_char :: "nat \<Rightarrow> char" where
  "digit_char n = ''0123456789'' ! (n mod 10)"

fun show_nat :: "nat \<Rightarrow> string" where
  "show_nat n = (if n < 10 then [digit_char n] else show_nat (n div 10) @ [digit_char n])"

declare show_nat.simps [simp del]

definition zpad :: "nat \<Rightarrow> nat \<Rightarrow> string" where
  "zpad w n = replicate (w - length (show_nat n)) CHR ''0'' @ show_nat n"

text \<open>\<^verbatim>\<open>datetime.isoformat()\<close>: \<^verbatim>\<open>"%04d-%02d-%02dT%02d:%02d:%02d"\<close>, followed by
  \<^verbatim>\<open>".%06d"\<close> when the microsecond is not zero.\<close>

definition isoformat :: "datetime \<Rightarrow> string" where
  "isoformat d =
     zpad 4 (dt_year d) @ ''-'' @ zpad 2 (dt_month d) @ ''-'' @ zpad 2 (dt_day d) @ ''T'' @
     zpad 2 (dt_hour d) @ '':'' @ zpad 2 (dt_minute d) @ '':'' @ zpad 2 (dt_second d) @
     (if dt_microsecond d = 0 then [] else ''.'' @ zpad 6 (dt_microsecond d))"

text \<open>The value range of a \<^verbatim>\<open>datetime\<close> object.\<close>

definition valid_datetime :: "datetime \<Rightarrow> bool" where
  "valid_datetime d =
     (1 \<le> dt_year d \<and> dt_year d \<le> 9999 \<and> 1 \<le> dt_month d \<and> dt_month d \<le> 12 \<and>
      1 \<le> dt_day d \<and> dt_day d \<le> 31 \<and> dt_hour d < 24 \<and> dt_minute d < 60 \<and>
      dt_second d < 60 \<and> dt_microsecond d < 1000000)"

text \<open>
  The shape of an ISO-8601 combined date and time in extended format,
  \<^verbatim>\<open>YYYY-MM-DDThh:mm:ss\<close> with an optional fraction \<^verbatim>\<open>.ffffff\<close>: in the template,
  \<open>d\<close> stands for a digit and every other character for itself.
\<close>

definition is_digit :: "char \<Rightarrow> bool" where
  "is_digit c = (c \<in> set ''0123456789'')"

definition matches_template :: "string \<Rightarrow> string \<Rightarrow> bool" where
  "matches_template t s = list_all2 (\<lambda>p c. if p = CHR ''d'' then is_digit c else c = p) t s"

definition is_iso8601 :: "string \<Rightarrow> bool" where
  "is_iso8601 s =
     (matches_template ''dddd-dd-ddTdd:dd:dd'' s \<or>
      matches_template ''dddd-dd-ddTdd:dd:dd.dddddd'' s)"

subsection \<open>The outside world\<close>

text \<open>
  What the JSON decoder behind \<^verbatim>\<open>Response.json()\<close> (\<^verbatim>\<open>json.loads\<close>) does with a body: it
  returns a value, it raises \<^verbatim>\<open>json.JSONDecodeError\<close> with a message, or it raises
  something else (\<^verbatim>\<open>RecursionError\<close> on deep nesting, \<^verbatim>\<open>ValueError\<close> on an integer
  with too many digits).
\<close>

datatype loads_result =
    Loaded pyval
  | DecodeError string
  | LoadsRaised exn

text \<open>
  An HTTP response: its status line, whether its body is a JSON text, and what the decoder
  does with the body. The two are separate facts: the decoder also accepts \<^verbatim>\<open>NaN\<close>,
  \<^verbatim>\<open>Infinity\<close> and \<^verbatim>\<open>-Infinity\<close>, which are not JSON, and it can raise on a JSON text
  that is nested too deeply.
\<close>

record response =
  status_code :: nat
  reason :: string
  valid_json :: bool
  loads :: loads_result

text \<open>
  What the outside world does while one endpoint is processed: for each external call
  of \<^verbatim>\<open>get_api_response\<close>, \<^verbatim>\<open>_save_to_file\<close>, \<^verbatim>\<open>_get_mongo_client\<close> and
  \<^verbatim>\<open>_save_to_mongodb\<close>, the value it returns or the exception it raises.
\<close>

record endpoint_io =
  utcnow_fetch :: datetime \<comment> \<open>\<^verbatim>\<open>datetime.utcnow()\<close> in \<^verbatim>\<open>get_api_response\<close>\<close>
  session_get :: "exn + response" \<comment> \<open>\<^verbatim>\<open>self.session.get(url)\<close>\<close>
  file_open :: "exn option" \<comment> \<open>\<^verbatim>\<open>open(filepath, 'w')\<close>\<close>
  json_dump :: "exn option" \<comment> \<open>\<^verbatim>\<open>json.dump(data, f, indent=4)\<close> and closing the file\<close>
  mongo_client_new :: "exn option" \<comment> \<open>\<^verbatim>\<open>MongoClient(uri, serverSelectionTimeoutMS=5000)\<close>\<close>
  server_info :: "exn option" \<comment> \<open>\<^verbatim>\<open>client.server_info()\<close>\<close>
  mongo_select :: "exn option" \<comment> \<open>\<^verbatim>\<open>client[db]\<close> and \<^verbatim>\<open>db[collection]\<close>\<close>
  utcnow_write :: datetime \<comment> \<open>\<^verbatim>\<open>datetime.utcnow()\<close> in \<^verbatim>\<open>_save_to_mongodb\<close>\<close>
  insert_one :: "exn + string" \<comment> \<open>\<^verbatim>\<open>collection.insert_one(document)\<close>: the inserted id\<close>
  client_close :: "exn option" \<comment> \<open>\<^verbatim>\<open>client.close()\<close>\<close>

record world =
  makedirs :: "exn option" \<comment> \<open>\<^verbatim>\<open>os.makedirs(output_dir, exist_ok=True)\<close>\<close>
  io :: "string \<Rightarrow> endpoint_io" \<comment> \<open>by endpoint\<close>

text \<open>The external calls and console lines a run makes, in order.\<close>

datatype event =
    Print string
  | MakeDirs string
  | HttpGet string
  | FileOpen string
  | JsonDump string pyval
  | MongoClientNew string nat
  | ServerInfo
  | InsertOne string string pyval
  | ClientClose

subsection \<open>The collector object\<close>

record collector =
  base_url :: string
  auth :: "string option \<times> string option"
  verify :: bool
  test_mode :: bool
  output_dir :: string
  mongo_uri :: string
  mongo_db :: string
  mongo_collection :: string
  api_endpoints :: "string list"

text \<open>\<^verbatim>\<open>os.getenv(name)\<close> and \<^verbatim>\<open>os.getenv(name, default)\<close> on the process environment.\<close>

type_synonym environ = "string \<Rightarrow> string option"

definition getenv :: "environ \<Rightarrow> string \<Rightarrow> string option" where
  "getenv env name = env name"

definition getenv_default :: "environ \<Rightarrow> string \<Rightarrow> string \<Rightarrow> string" where
  "getenv_default env name dflt = (case env name of None \<Rightarrow> dflt | Some v \<Rightarrow> v)"

text \<open>\<^verbatim>\<open>RedfishCollector.__init__\<close> (lines 15 to 35). The only call that can raise is
  \<^verbatim>\<open>os.makedirs\<close>.\<close>

definition init :: "world \<Rightarrow> environ \<Rightarrow> string option \<Rightarrow> string option \<Rightarrow> string option \<Rightarrow> bool
    \<Rightarrow> (exn + collector) \<times> event list" where
  "init w env host username password tm =
     (case makedirs w of
        Some e \<Rightarrow> (Inl e, [MakeDirs ''redfish_data''])
      | None \<Rightarrow>
          (Inr \<lparr> base_url = ''https://'' @ py_str host,
                 auth = (username, password),
                 verify = False,
                 test_mode = tm,
                 output_dir = ''redfish_data'',
                 mongo_uri = py_str (getenv env ''MONGO_URI''),
                 mongo_db = py_str (getenv env ''MONGO_DB''),
                 mongo_collection = py_str (getenv env ''MONGO_COLLECTION''),
                 api_endpoints = [''/redfish/v1'', ''/redfish/v1/Systems/1'',
                                  ''/redfish/v1/Chassis/1'', ''/redfish/v1/Managers/1''] \<rparr>,
           [MakeDirs ''redfish_data'']))"

subsection \<open>The database sink\<close>

text \<open>\<^verbatim>\<open>_get_mongo_client\<close> (lines 37 to 49): \<open>True\<close> for a client, \<open>False\<close> for
  \<^verbatim>\<open>None\<close>.\<close>

definition get_mongo_client :: "collector \<Rightarrow> world \<Rightarrow> string \<Rightarrow> bool \<times> event list" where
  "get_mongo_client c w endpoint =
     (case mongo_client_new (io w endpoint) of
        Some e \<Rightarrow>
          (False, [MongoClientNew (mongo_uri c) 5000,
                   Print (''MongoDB connection error: '' @ exn_str e)])
      | None \<Rightarrow>
          (case server_info (io w endpoint) of
             Some e \<Rightarrow>
               (False, [MongoClientNew (mongo_uri c) 5000, ServerInfo,
                        Print (''MongoDB connection error: '' @ exn_str e)])
           | None \<Rightarrow> (True, [MongoClientNew (mongo_uri c) 5000, ServerInfo])))"

text \<open>The dictionary built at lines 62 to 68.\<close>

definition mongo_document :: "collector \<Rightarrow> world \<Rightarrow> pyval \<Rightarrow> string \<Rightarrow> pyval" where
  "mongo_document c w data endpoint =
     VDict [(''endpoint'', VStr endpoint),
            (''data'', data),
            (''collection_date'', VDate (utcnow_write (io w endpoint))),
            (''source'', VStr (base_url c)),
            (''test_mode'', VBool (test_mode c))]"

text \<open>The body of the \<^verbatim>\<open>try\<close> of \<^verbatim>\<open>_save_to_mongodb\<close> once a client is there (lines 59
  to 72) under its \<^verbatim>\<open>except Exception\<close> (lines 74 to 76): the value returned.\<close>

definition mongo_insert :: "collector \<Rightarrow> world \<Rightarrow> pyval \<Rightarrow> string \<Rightarrow> bool \<times> event list" where
  "mongo_insert c w data endpoint =
     (case mongo_select (io w endpoint) of
        Some e \<Rightarrow> (False, [Print (''Error saving to MongoDB: '' @ exn_str e)])
      | None \<Rightarrow>
          (case insert_one (io w endpoint) of
             Inl e \<Rightarrow>
               (False, [InsertOne (mongo_db c) (mongo_collection c) (mongo_document c w data endpoint),
                        Print (''Error saving to MongoDB: '' @ exn_str e)])
           | Inr oid \<Rightarrow>
               (True, [InsertOne (mongo_db c) (mongo_collection c) (mongo_document c w data endpoint),
                       Print (''Successfully saved to MongoDB (ID: '' @ oid @ '')'')])))"

text \<open>
  \<^verbatim>\<open>_save_to_mongodb\<close> (lines 51 to 79). Without a client it returns \<^verbatim>\<open>False\<close> and the
  \<^verbatim>\<open>finally\<close> block closes nothing. With a client, the \<^verbatim>\<open>finally\<close> block calls
  \<^verbatim>\<open>client.close()\<close> after the \<^verbatim>\<open>try\<close> and its handler are done; the call stands
  outside every \<^verbatim>\<open>except\<close>, so an exception it raises replaces the value to return
  and leaves the function (\<open>Inl\<close>).
\<close>

definition save_to_mongodb :: "collector \<Rightarrow> world \<Rightarrow> pyval \<Rightarrow> string \<Rightarrow> (exn + bool) \<times> event list" where
  "save_to_mongodb c w data endpoint =
     (case get_mongo_client c w endpoint of
        (False, evs) \<Rightarrow> (Inr False, evs)
      | (True, evs) \<Rightarrow>
          (case mongo_insert c w data endpoint of
             (r, evs') \<Rightarrow>
               (case client_close (io w endpoint) of
                  Some e \<Rightarrow> (Inl e, evs @ evs' @ [ClientClose])
                | None \<Rightarrow> (Inr r, evs @ evs' @ [ClientClose]))))"

subsection \<open>The file sink\<close>

text \<open>Lines 84 and 85: the file name of an endpoint.\<close>

definition filename :: "string \<Rightarrow> string" where
  "filename endpoint =
     (let stem = py_replace CHR ''/'' CHR ''_'' (py_strip CHR ''/'' endpoint)
      in (if stem = [] then ''root'' else stem) @ ''.json'')"

text \<open>\<^verbatim>\<open>os.path.join(a, b)\<close> on POSIX.\<close>

definition path_join :: "string \<Rightarrow> string \<Rightarrow> string" where
  "path_join a b =
     (if b \<noteq> [] \<and> hd b = CHR ''/'' then b
      else if a = [] \<or> last a = CHR ''/'' then a @ b
      else a @ ''/'' @ b)"

text \<open>\<^verbatim>\<open>_save_to_file\<close> (lines 81 to 95). Everything is inside \<^verbatim>\<open>try\<close> with
  \<^verbatim>\<open>except Exception\<close>, so the function returns a boolean whatever happens.\<close>

definition save_to_file :: "collector \<Rightarrow> world \<Rightarrow> pyval \<Rightarrow> string \<Rightarrow> bool \<times> event list" where
  "save_to_file c w data endpoint =
     (let filepath = path_join (output_dir c) (filename endpoint) in
      case file_open (io w endpoint) of
        Some e \<Rightarrow> (False, [FileOpen filepath, Print (''Error saving file: '' @ exn_str e)])
      | None \<Rightarrow>
          (case json_dump (io w endpoint) of
             Some e \<Rightarrow>
               (False, [FileOpen filepath, JsonDump filepath data,
                        Print (''Error saving file: '' @ exn_str e)])
           | None \<Rightarrow>
               (True, [FileOpen filepath, JsonDump filepath data,
                       Print (''Saved response to '' @ filepath)])))"

subsection \<open>Fetching one endpoint\<close>

text \<open>\<^verbatim>\<open>Response.raise_for_status()\<close> of requests: an \<^verbatim>\<open>HTTPError\<close> for a status from
  400 to 599, nothing for any other status.\<close>

definition raise_for_status :: "string \<Rightarrow> response \<Rightarrow> exn option" where
  "raise_for_status url r =
     (if 400 \<le> status_code r \<and> status_code r < 500 then
        Some (HTTPError (show_nat (status_code r) @ '' Client Error: '' @ reason r @
                         '' for url: '' @ url))
      else if 500 \<le> status_code r \<and> status_code r < 600 then
        Some (HTTPError (show_nat (status_code r) @ '' Server Error: '' @ reason r @
                         '' for url: '' @ url))
      else None)"

text \<open>\<^verbatim>\<open>Response.json()\<close>: the decoder's \<^verbatim>\<open>JSONDecodeError\<close> is raised again as
  \<^verbatim>\<open>requests.exceptions.JSONDecodeError\<close> with the same message; any other exception of
  the decoder passes through unchanged.\<close>

definition response_json :: "response \<Rightarrow> exn + pyval" where
  "response_json r =
     (case loads r of
        Loaded v \<Rightarrow> Inr v
      | DecodeError m \<Rightarrow> Inl (JSONDecodeError m)
      | LoadsRaised e \<Rightarrow> Inl e)"

text \<open>Lines 112 to 114: the request, the status check and the decoding of the body.\<close>

definition http_fetch :: "collector \<Rightarrow> world \<Rightarrow> string \<Rightarrow> exn + pyval" where
  "http_fetch c w endpoint =
     (case session_get (io w endpoint) of
        Inl e \<Rightarrow> Inl e
      | Inr r \<Rightarrow>
          (case raise_for_status (base_url c @ endpoint) r of
             Some e \<Rightarrow> Inl e
           | None \<Rightarrow> response_json r))"

text \<open>Lines 100 to 105: the document of test mode.\<close>

definition mock_data :: "world \<Rightarrow> string \<Rightarrow> pyval" where
  "mock_data w endpoint =
     VDict [(''endpoint'', VStr endpoint),
            (''mock_data'', VBool True),
            (''timestamp'', VStr (isoformat (utcnow_fetch (io w endpoint))))]"

text \<open>The two sink calls that follow a fetched document (lines 106 to 108 and 117 to 120).
  The values the sinks return are dropped; an exception leaving \<^verbatim>\<open>_save_to_mongodb\<close>
  is passed on.\<close>

definition save_both :: "collector \<Rightarrow> world \<Rightarrow> pyval \<Rightarrow> string \<Rightarrow> (exn + pyval option) \<times> event list" where
  "save_both c w data endpoint =
     (case save_to_file c w data endpoint of
        (r1, evs1) \<Rightarrow>
          (case save_to_mongodb c w data endpoint of
             (Inl e, evs2) \<Rightarrow> (Inl e, evs1 @ evs2)
           | (Inr r2, evs2) \<Rightarrow> (Inr (Some data), evs1 @ evs2)))"

text \<open>The handler of lines 121 to 123: a \<^verbatim>\<open>RequestException\<close> raised anywhere in the
  \<^verbatim>\<open>try\<close> block is printed and turned into \<^verbatim>\<open>None\<close>; any other exception goes on.\<close>

definition except_RequestException :: "string \<Rightarrow> (exn + pyval option) \<times> event list
    \<Rightarrow> (exn + pyval option) \<times> event list" where
  "except_RequestException url res =
     (case res of
        (Inl e, evs) \<Rightarrow>
          if is_RequestException e
          then (Inr None, evs @ [Print (''Error accessing '' @ url @ '': '' @ exn_str e)])
          else (Inl e, evs)
      | (Inr v, evs) \<Rightarrow> (Inr v, evs))"

text \<open>\<^verbatim>\<open>get_api_response\<close> (lines 97 to 123): \<open>Inr (Some data)\<close> is a returned document,
  \<open>Inr None\<close> is the returned \<^verbatim>\<open>None\<close>, \<open>Inl e\<close> is an exception that leaves the
  method.\<close>

definition get_api_response :: "collector \<Rightarrow> world \<Rightarrow> string \<Rightarrow> (exn + pyval option) \<times> event list" where
  "get_api_response c w endpoint =
     (if test_mode c then
        (case save_both c w (mock_data w endpoint) endpoint of
           (r, evs) \<Rightarrow> (r, Print (''[TEST MODE] Simulating request to '' @ endpoint) # evs))
      else
        except_RequestException (base_url c @ endpoint)
          (case http_fetch c w endpoint of
             Inl e \<Rightarrow> (Inl e, [HttpGet (base_url c @ endpoint)])
           | Inr data \<Rightarrow>
               (case save_both c w data endpoint of
                  (r, evs) \<Rightarrow> (r, HttpGet (base_url c @ endpoint) # evs))))"

subsection \<open>The run\<close>

text \<open>The loop of \<^verbatim>\<open>collect_all\<close> (lines 130 to 132) over the endpoints still to do. An
  exception leaving \<^verbatim>\<open>get_api_response\<close> ends the loop.\<close>

fun collect_loop :: "collector \<Rightarrow> world \<Rightarrow> string list \<Rightarrow> (exn + unit) \<times> event list" where
  "collect_loop c w [] = (Inr (), [])"
| "collect_loop c w (endpoint # rest) =
     (case get_api_response c w endpoint of
        (Inl e, evs) \<Rightarrow> (Inl e, Print (CHR 0x0A # ''Collecting '' @ endpoint) # evs)
      | (Inr v, evs) \<Rightarrow>
          (case collect_loop c w rest of
             (r, evs') \<Rightarrow> (r, Print (CHR 0x0A # ''Collecting '' @ endpoint) # evs @ evs')))"

text \<open>\<^verbatim>\<open>collect_all\<close> (lines 125 to 134).\<close>

definition collect_all :: "collector \<Rightarrow> world \<Rightarrow> (exn + unit) \<times> event list" where
  "collect_all c w =
     (let start = [Print (CHR 0x0A # (if test_mode c then ''[TEST MODE] '' else []) @
                          ''Starting collection...''),
                   Print (''Storage targets: Local JSON files and MongoDB at '' @ mongo_uri c)]
      in case collect_loop c w (api_endpoints c) of
           (Inl e, evs) \<Rightarrow> (Inl e, start @ evs)
         | (Inr u, evs) \<Rightarrow> (Inr (), start @ evs @ [Print (CHR 0x0A # ''Collection complete!'')]))"

text \<open>\<^verbatim>\<open>load_dotenv()\<close>: the variables of the \<^verbatim>\<open>.env\<close> file are added to the process
  environment; a variable that is already set keeps its value.\<close>

definition load_dotenv :: "environ \<Rightarrow> environ \<Rightarrow> environ" where
  "load_dotenv dotenv env = (\<lambda>name. case env name of Some v \<Rightarrow> Some v | None \<Rightarrow> dotenv name)"

definition required_vars :: "string list" where
  "required_vars = [''ILO_HOST'', ''ILO_USER'', ''ILO_PASSWORD'']"

text \<open>Line 154: the required variables that are unset or empty.\<close>

definition missing :: "environ \<Rightarrow> string list" where
  "missing env = filter (\<lambda>var. \<not> py_truthy (getenv env var)) required_vars"

text \<open>Line 141.\<close>

definition test_mode_flag :: "environ \<Rightarrow> bool" where
  "test_mode_flag env =
     (py_lower (getenv_default env ''TEST_MODE'' []) \<in> set [''true'', ''1'', ''t''])"

text \<open>The collector of a run and the run itself (line 164), shared by both branches of
  \<^verbatim>\<open>main\<close>.\<close>

definition run :: "(exn + collector) \<times> event list \<Rightarrow> world \<Rightarrow> (exn + unit) \<times> event list" where
  "run made w =
     (case made of
        (Inl e, evs) \<Rightarrow> (Inl e, evs)
      | (Inr c, evs) \<Rightarrow> (case collect_all c w of (r, evs') \<Rightarrow> (r, evs @ evs')))"

text \<open>\<^verbatim>\<open>main\<close> (lines 136 to 164), given the \<^verbatim>\<open>.env\<close> file, the process environment and
  the outside world.\<close>

definition main :: "environ \<Rightarrow> environ \<Rightarrow> world \<Rightarrow> (exn + unit) \<times> event list" where
  "main dotenv environ0 w =
     (let env = load_dotenv dotenv environ0 in
      if test_mode_flag env then
        (case run (init w env (Some ''mock-ilo.example.com'') (Some ''test-user'')
                     (Some ''test-pass'') True) w of
           (r, evs) \<Rightarrow> (r, Print ''Running in TEST MODE - using mock data'' # evs))
      else if missing env \<noteq> [] then
        (Inl (ValueError (''Missing required ILO credentials: '' @ py_join '', '' (missing env))), [])
      else
        run (init w env (getenv env ''ILO_HOST'') (getenv env ''ILO_USER'')
               (getenv env ''ILO_PASSWORD'') False) w)"

subsection \<open>Vocabulary for the properties\<close>

text \<open>A write attempt at the file sink is the call that opens the file; a write attempt
  at the database sink is the call that makes the client.\<close>

fun is_file_attempt :: "event \<Rightarrow> bool" where
  "is_file_attempt (FileOpen p) = True"
| "is_file_attempt ev = False"

fun is_db_attempt :: "event \<Rightarrow> bool" where
  "is_db_attempt (MongoClientNew u t) = True"
| "is_db_attempt ev = False"

definition file_attempts :: "event list \<Rightarrow> nat" where
  "file_attempts evs = length (filter is_file_attempt evs)"

definition db_attempts :: "event list \<Rightarrow> nat" where
  "db_attempts evs = length (filter is_db_attempt evs)"

text \<open>The calls into the file system, into the database driver, and the HTTP requests.\<close>

fun is_file_event :: "event \<Rightarrow> bool" where
  "is_file_event (FileOpen p) = True"
| "is_file_event (JsonDump p d) = True"
| "is_file_event ev = False"

fun is_db_event :: "event \<Rightarrow> bool" where
  "is_db_event (MongoClientNew u t) = True"
| "is_db_event ServerInfo = True"
| "is_db_event (InsertOne d k v) = True"
| "is_db_event ClientClose = True"
| "is_db_event ev = False"

fun is_http_event :: "event \<Rightarrow> bool" where
  "is_http_event (HttpGet u) = True"
| "is_http_event ev = False"

text \<open>The same world with other outcomes of the file-system calls for one endpoint, and
  with other outcomes of the database calls for one endpoint.\<close>

definition with_file_io :: "world \<Rightarrow> string \<Rightarrow> exn option \<Rightarrow> exn option \<Rightarrow> world" where
  "with_file_io w endpoint fo jd =
     w\<lparr>io := (io w)(endpoint := (io w endpoint)\<lparr>file_open := fo, json_dump := jd\<rparr>)\<rparr>"

definition with_db_io :: "world \<Rightarrow> string \<Rightarrow> exn option \<Rightarrow> exn option \<Rightarrow> exn option
    \<Rightarrow> exn + string \<Rightarrow> exn option \<Rightarrow> world" where
  "with_db_io w endpoint mc si ms ins cl =
     w\<lparr>io := (io w)(endpoint := (io w endpoint)\<lparr>mongo_client_new := mc, server_info := si,
            mongo_select := ms, insert_one := ins, client_close := cl\<rparr>)\<rparr>"

text \<open>Keys and lookup of a dictionary value.\<close>

fun dict_keys :: "pyval \<Rightarrow> string list" where
  "dict_keys (VDict kvs) = map fst kvs"
| "dict_keys v = []"

fun dict_get :: "pyval \<Rightarrow> string \<Rightarrow> pyval option" where
  "dict_get (VDict kvs) k = map_of kvs k"
| "dict_get v k = None"

text \<open>A collector in live mode, a world in which every call succeeds, and a small document,
  for concrete evaluations.\<close>

definition demo_collector :: collector where
  "demo_collector =
     \<lparr> base_url = ''https://ilo.example.com'', auth = (Some ''admin'', Some ''secret''), verify = False,
       test_mode = False, output_dir = ''redfish_data'',
       mongo_uri = ''mongodb://localhost:27017'', mongo_db = ''ilo'', mongo_collection = ''redfish'',
       api_endpoints = [''/redfish/v1'', ''/redfish/v1/Systems/1'',
                        ''/redfish/v1/Chassis/1'', ''/redfish/v1/Managers/1''] \<rparr>"

definition demo_doc :: pyval where
  "demo_doc = VDict [(''Id'', VStr ''1''), (''PowerState'', VStr ''On'')]"

definition demo_time :: datetime where
  "demo_time = \<lparr> dt_year = 2024, dt_month = 5, dt_day = 17, dt_hour = 8, dt_minute = 30,
                  dt_second = 2, dt_microsecond = 120045 \<rparr>"

definition demo_io :: endpoint_io where
  "demo_io =
     \<lparr> utcnow_fetch = demo_time,
       session_get = Inr \<lparr> status_code = 200, reason = ''OK'', valid_json = True,
                          loads = Loaded demo_doc \<rparr>,
       file_open = None, json_dump = None, mongo_client_new = None, server_info = None,
       mongo_select = None, utcnow_write = demo_time, insert_one = Inr ''65f0c0ffee'',
       client_close = None \<rparr>"

text \<open>The world in which the directory can be made and every endpoint meets the same
  outcomes; the process environment given by a list of settings.\<close>

definition world_of :: "endpoint_io \<Rightarrow> world" where
  "world_of x = \<lparr> makedirs = None, io = (\<lambda>endpoint. x) \<rparr>"

definition demo_world :: world where
  "demo_world = world_of demo_io"

definition environ_of :: "(string \<times> string) list \<Rightarrow> environ" where
  "environ_of kvs = map_of kvs"

section \<open>Properties\<close>

subsection \<open>File names\<close>

lemma dropWhile_replicate_eq:
  "dropWhile (\<lambda>x. x = c) (replicate n c @ ys) = dropWhile (\<lambda>x. x = c) ys"
  by (induction n) auto

lemma dropWhile_hd_neq:
  "ys \<noteq> [] \<Longrightarrow> hd ys \<noteq> c \<Longrightarrow> dropWhile (\<lambda>x. x = c) (ys @ zs) = ys @ zs"
  by (cases ys) auto

lemma dropWhile_replicate_only: "dropWhile (\<lambda>x. x = c) (replicate n c) = []"
  by (induction n) auto

lemma strip_left:
  "core \<noteq> [] \<Longrightarrow> hd core \<noteq> c \<Longrightarrow>
   dropWhile (\<lambda>x. x = c) (replicate a c @ core @ replicate b c) = core @ replicate b c"
  unfolding dropWhile_replicate_eq by (rule dropWhile_hd_neq)

lemma py_strip_all: "py_strip c (replicate n c) = []"
  unfolding py_strip_def dropWhile_replicate_only by simp

text \<open>Stripping removes exactly the run of \<open>c\<close> at either end.\<close>

lemma py_strip_sandwich:
  assumes "core = [] \<or> (hd core \<noteq> c \<and> last core \<noteq> c)"
  shows "py_strip c (replicate a c @ core @ replicate b c) = core"
proof (cases "core = []")
  case True
  have "replicate a c @ core @ replicate b c = replicate (a + b) c"
    unfolding True by (simp add: replicate_add)
  then show ?thesis unfolding True by (simp only: py_strip_all)
next
  case False
  with assms have h: "hd core \<noteq> c" and l: "last core \<noteq> c" by blast+
  have r1: "rev core \<noteq> []" using False by simp
  have r2: "hd (rev core) \<noteq> c" using False l by (simp add: hd_rev)
  have "rev (core @ replicate b c) = replicate b c @ rev core @ replicate 0 c" by simp
  then have "dropWhile (\<lambda>x. x = c) (rev (core @ replicate b c)) = rev core @ replicate 0 c"
    using strip_left[OF r1 r2, of b 0] by (simp only:)
  then show ?thesis unfolding py_strip_def strip_left[OF False h] by simp
qed

lemma takeWhile_eq_replicate:
  "takeWhile (\<lambda>x. x = c) xs = replicate (length (takeWhile (\<lambda>x. x = c) xs)) c"
  by (induction xs) auto

lemma split_left:
  "\<exists>a m. e = replicate a c @ m \<and> dropWhile (\<lambda>x. x = c) e = m \<and> (m = [] \<or> hd m \<noteq> c)"
proof (intro exI conjI)
  show "e = replicate (length (takeWhile (\<lambda>x. x = c) e)) c @ dropWhile (\<lambda>x. x = c) e"
    using takeWhile_eq_replicate[of c e] takeWhile_dropWhile_id[of "\<lambda>x. x = c" e] by metis
  show "dropWhile (\<lambda>x. x = c) e = dropWhile (\<lambda>x. x = c) e" by (rule refl)
  show "dropWhile (\<lambda>x. x = c) e = [] \<or> hd (dropWhile (\<lambda>x. x = c) e) \<noteq> c"
    using hd_dropWhile[of "\<lambda>x. x = c" e] by blast
qed

text \<open>Every string is such a sandwich around what stripping leaves.\<close>

lemma py_strip_decomp:
  "\<exists>a b. e = replicate a c @ py_strip c e @ replicate b c \<and>
     (py_strip c e = [] \<or> (hd (py_strip c e) \<noteq> c \<and> last (py_strip c e) \<noteq> c))"
proof -
  obtain a m where e: "e = replicate a c @ m" and m: "dropWhile (\<lambda>x. x = c) e = m"
    and hm: "m = [] \<or> hd m \<noteq> c"
    using split_left[of e c] by blast
  obtain b k where rm: "rev m = replicate b c @ k" and k: "dropWhile (\<lambda>x. x = c) (rev m) = k"
    and hk: "k = [] \<or> hd k \<noteq> c"
    using split_left[of "rev m" c] by blast
  have core: "py_strip c e = rev k" unfolding py_strip_def m k by (rule refl)
  have "rev (rev m) = rev (replicate b c @ k)" by (simp only: rm)
  then have m2: "m = rev k @ replicate b c" by simp
  have last_k: "rev k = [] \<or> last (rev k) \<noteq> c"
    using hk by (cases "k = []") (simp_all add: last_rev)
  have hd_k: "rev k = [] \<or> hd (rev k) \<noteq> c"
  proof (cases "rev k = []")
    case True then show ?thesis by blast
  next
    case False
    then have "hd m = hd (rev k)" unfolding m2 by simp
    moreover have "m \<noteq> []" using False unfolding m2 by simp
    ultimately show ?thesis using hm by auto
  qed
  have "e = replicate a c @ rev k @ replicate b c" using e unfolding m2 .
  then show ?thesis unfolding core using hd_k last_k by blast
qed

text \<open>
  Claim C5. For every endpoint string the file name is what is left after the slashes at both
  ends are removed, with every slash inside turned into an underscore, \<open>root\<close> when nothing
  is left, and \<open>.json\<close> appended: every string is a run of slashes, a core that neither
  begins nor ends with a slash, and a run of slashes, and the name is computed from the core.
  \<^verbatim>\<open>/redfish/v1\<close> gives \<^verbatim>\<open>redfish_v1.json\<close>, \<^verbatim>\<open>/redfish/v1/Systems/1\<close> gives
  \<^verbatim>\<open>redfish_v1_Systems_1.json\<close>, the empty path and the root path give \<^verbatim>\<open>root.json\<close>,
  and the four endpoints of a collector get four different names.
\<close>

theorem filename_derivation:
  "(\<forall>a b core. (core = [] \<or> (hd core \<noteq> CHR ''/'' \<and> last core \<noteq> CHR ''/'')) \<longrightarrow>
      filename (replicate a CHR ''/'' @ core @ replicate b CHR ''/'') =
        (if core = [] then ''root'' else map (\<lambda>x. if x = CHR ''/'' then CHR ''_'' else x) core)
          @ ''.json'')
   \<and> (\<exists>a b core. endpoint = replicate a CHR ''/'' @ core @ replicate b CHR ''/'' \<and>
         (core = [] \<or> (hd core \<noteq> CHR ''/'' \<and> last core \<noteq> CHR ''/'')))
   \<and> filename ''/redfish/v1'' = ''redfish_v1.json''
   \<and> filename ''/redfish/v1/Systems/1'' = ''redfish_v1_Systems_1.json''
   \<and> filename [] = ''root.json''
   \<and> filename ''/'' = ''root.json''
   \<and> (fst (init w env host username password tm) = Inr c \<longrightarrow>
         inj_on filename (set (api_endpoints c)) \<and> distinct (map filename (api_endpoints c)))"
proof (intro conjI allI impI)
  fix a b core
  assume "core = [] \<or> (hd core \<noteq> CHR ''/'' \<and> last core \<noteq> CHR ''/'')"
  then have "py_strip CHR ''/'' (replicate a CHR ''/'' @ core @ replicate b CHR ''/'') = core"
    by (rule py_strip_sandwich)
  then show "filename (replicate a CHR ''/'' @ core @ replicate b CHR ''/'') =
        (if core = [] then ''root'' else map (\<lambda>x. if x = CHR ''/'' then CHR ''_'' else x) core)
          @ ''.json''"
    by (simp add: filename_def py_replace_def)
next
  show "\<exists>a b core. endpoint = replicate a CHR ''/'' @ core @ replicate b CHR ''/'' \<and>
         (core = [] \<or> (hd core \<noteq> CHR ''/'' \<and> last core \<noteq> CHR ''/''))"
    using py_strip_decomp[of endpoint "CHR ''/''"] by blast
next
  show "filename ''/redfish/v1'' = ''redfish_v1.json''"
    by (simp add: filename_def py_strip_def py_replace_def)
  show "filename ''/redfish/v1/Systems/1'' = ''redfish_v1_Systems_1.json''"
    by (simp add: filename_def py_strip_def py_replace_def)
  show "filename [] = ''root.json''"
    by (simp add: filename_def py_strip_def py_replace_def)
  show "filename ''/'' = ''root.json''"
    by (simp add: filename_def py_strip_def py_replace_def)
next
  assume "fst (init w env host username password tm) = Inr c"
  then have eps: "api_endpoints c = [''/redfish/v1'', ''/redfish/v1/Systems/1'',
      ''/redfish/v1/Chassis/1'', ''/redfish/v1/Managers/1'']"
    by (auto simp: init_def split: option.splits)
  show d: "distinct (map filename (api_endpoints c))"
    unfolding eps by (simp add: filename_def py_strip_def py_replace_def)
  then show "inj_on filename (set (api_endpoints c))"
    by (simp add: distinct_map)
qed

text \<open>The theorem at the endpoint \<^verbatim>\<open>//Systems/1/\<close> and at a collector made by \<open>init\<close>.\<close>

theorem filename_derivation_witness:
  "filename (replicate 2 CHR ''/'' @ ''Systems/1'' @ replicate 1 CHR ''/'') = ''Systems_1.json''
   \<and> fst (init demo_world (environ_of []) (Some ''ilo.example.com'') (Some ''admin'') (Some ''secret'') False)
       = Inr (demo_collector\<lparr>mongo_uri := ''None'', mongo_db := ''None'', mongo_collection := ''None''\<rparr>)
   \<and> distinct (map filename (api_endpoints
         (demo_collector\<lparr>mongo_uri := ''None'', mongo_db := ''None'', mongo_collection := ''None''\<rparr>)))"
proof -
  let ?c = "demo_collector\<lparr>mongo_uri := ''None'', mongo_db := ''None'', mongo_collection := ''None''\<rparr>"
  have i: "fst (init demo_world (environ_of []) (Some ''ilo.example.com'') (Some ''admin'') (Some ''secret'') False)
       = Inr ?c"
    by (simp add: init_def demo_world_def world_of_def demo_collector_def getenv_def environ_of_def)
  note t = filename_derivation[of "''/redfish/v1''" demo_world "environ_of []" "Some ''ilo.example.com''"
      "Some ''admin''" "Some ''secret''" False ?c]
  have h: "''Systems/1'' = [] \<or> (hd ''Systems/1'' \<noteq> CHR ''/'' \<and> last ''Systems/1'' \<noteq> CHR ''/'')"
    by simp
  from t have "\<forall>a b core. (core = [] \<or> (hd core \<noteq> CHR ''/'' \<and> last core \<noteq> CHR ''/'')) \<longrightarrow>
      filename (replicate a CHR ''/'' @ core @ replicate b CHR ''/'') =
        (if core = [] then ''root'' else map (\<lambda>x. if x = CHR ''/'' then CHR ''_'' else x) core)
          @ ''.json''" by (rule conjunct1)
  then have "filename (replicate 2 CHR ''/'' @ ''Systems/1'' @ replicate 1 CHR ''/'') =
        (if ''Systems/1'' = [] then ''root''
         else map (\<lambda>x. if x = CHR ''/'' then CHR ''_'' else x) ''Systems/1'') @ ''.json''"
    using h by blast
  then have 1: "filename (replicate 2 CHR ''/'' @ ''Systems/1'' @ replicate 1 CHR ''/'') = ''Systems_1.json''"
    by simp
  from t i have 2: "distinct (map filename (api_endpoints ?c))" by blast
  from 1 i 2 show ?thesis by blast
qed

subsection \<open>The two sinks of a fetched document\<close>

lemma save_to_file_counts:
  "file_attempts (snd (save_to_file c w d e)) = 1"
  "db_attempts (snd (save_to_file c w d e)) = 0"
  "filter is_db_event (snd (save_to_file c w d e)) = []"
  by (simp_all add: save_to_file_def file_attempts_def db_attempts_def Let_def split: option.splits)

lemma save_to_mongodb_counts:
  "db_attempts (snd (save_to_mongodb c w d e)) = 1"
  "file_attempts (snd (save_to_mongodb c w d e)) = 0"
  "filter is_file_event (snd (save_to_mongodb c w d e)) = []"
  by (simp_all add: save_to_mongodb_def get_mongo_client_def mongo_insert_def file_attempts_def
      db_attempts_def split: option.splits sum.splits)

lemma save_both_events:
  "snd (save_both c w d e) = snd (save_to_file c w d e) @ snd (save_to_mongodb c w d e)"
  by (simp add: save_both_def split: prod.splits sum.splits)

lemma attempts_append:
  "file_attempts (xs @ ys) = file_attempts xs + file_attempts ys"
  "db_attempts (xs @ ys) = db_attempts xs + db_attempts ys"
  by (simp_all add: file_attempts_def db_attempts_def)

lemma attempts_Cons_plain:
  "file_attempts (Print s # xs) = file_attempts xs"
  "db_attempts (Print s # xs) = db_attempts xs"
  "file_attempts (HttpGet u # xs) = file_attempts xs"
  "db_attempts (HttpGet u # xs) = db_attempts xs"
  "file_attempts [] = 0" "db_attempts [] = 0"
  by (simp_all add: file_attempts_def db_attempts_def)

lemma except_events:
  "snd (except_RequestException url (r, evs)) =
     evs @ (case r of Inl ex \<Rightarrow> if is_RequestException ex
                then [Print (''Error accessing '' @ url @ '': '' @ exn_str ex)] else []
            | Inr v \<Rightarrow> [])"
  by (simp add: except_RequestException_def split: sum.splits)

text \<open>The events of a call whose fetch gave the document \<open>d\<close>.\<close>

lemma get_api_response_events:
  assumes "(test_mode c \<and> d = mock_data w e) \<or> (\<not> test_mode c \<and> http_fetch c w e = Inr d)"
  shows "\<exists>pre post. snd (get_api_response c w e) =
            pre # snd (save_to_file c w d e) @ snd (save_to_mongodb c w d e) @ post
          \<and> (\<exists>s. pre = Print s \<or> pre = HttpGet s) \<and> (post = [] \<or> (\<exists>s. post = [Print s]))"
proof (cases "test_mode c")
  case True
  with assms have d: "d = mock_data w e" by blast
  have "snd (get_api_response c w e) =
      Print (''[TEST MODE] Simulating request to '' @ e) # snd (save_both c w d e)"
    using True d by (simp add: get_api_response_def split: prod.splits)
  then show ?thesis unfolding save_both_events by auto
next
  case False
  with assms have f: "http_fetch c w e = Inr d" by blast
  obtain r evs where sb: "save_both c w d e = (r, evs)" by (cases "save_both c w d e")
  have evs: "evs = snd (save_to_file c w d e) @ snd (save_to_mongodb c w d e)"
    using save_both_events[of c w d e] sb by simp
  have "snd (get_api_response c w e) =
      snd (except_RequestException (base_url c @ e) (r, HttpGet (base_url c @ e) # evs))"
    using False f sb by (simp add: get_api_response_def)
  then show ?thesis unfolding except_events evs by (auto split: sum.splits)
qed


lemma io_with_file_io:
  "io (with_file_io w e fo jd) e = (io w e)\<lparr>file_open := fo, json_dump := jd\<rparr>"
  by (simp add: with_file_io_def)

lemma io_with_db_io:
  "io (with_db_io w e mc si ms ins cl) e =
     (io w e)\<lparr>mongo_client_new := mc, server_info := si, mongo_select := ms, insert_one := ins,
               client_close := cl\<rparr>"
  by (simp add: with_db_io_def)

lemma fetch_with_file_io:
  "http_fetch c (with_file_io w e fo jd) e = http_fetch c w e"
  "mock_data (with_file_io w e fo jd) e = mock_data w e"
  by (simp_all add: http_fetch_def mock_data_def io_with_file_io)

lemma fetch_with_db_io:
  "http_fetch c (with_db_io w e mc si ms ins cl) e = http_fetch c w e"
  "mock_data (with_db_io w e mc si ms ins cl) e = mock_data w e"
  by (simp_all add: http_fetch_def mock_data_def io_with_db_io)

text \<open>Each sink reads only its own part of the world.\<close>

lemma save_to_mongodb_with_file_io:
  "save_to_mongodb c (with_file_io w e fo jd) d e = save_to_mongodb c w d e"
  by (simp add: save_to_mongodb_def get_mongo_client_def mongo_insert_def mongo_document_def
      io_with_file_io cong: option.case_cong sum.case_cong prod.case_cong bool.case_cong)

lemma save_to_file_with_db_io:
  "save_to_file c (with_db_io w e mc si ms ins cl) d e = save_to_file c w d e"
  by (simp add: save_to_file_def io_with_db_io cong: option.case_cong)

lemma fetched_document:
  assumes "test_mode c \<or> (\<exists>d. http_fetch c w e = Inr d)"
  obtains d where "(test_mode c \<and> d = mock_data w e) \<or> (\<not> test_mode c \<and> http_fetch c w e = Inr d)"
  using assms by (cases "test_mode c") auto

lemma db_events_of_call:
  assumes "(test_mode c \<and> d = mock_data w e) \<or> (\<not> test_mode c \<and> http_fetch c w e = Inr d)"
  shows "filter is_db_event (snd (get_api_response c w e)) =
           filter is_db_event (snd (save_to_mongodb c w d e))"
proof -
  obtain pre post where ev: "snd (get_api_response c w e) =
        pre # snd (save_to_file c w d e) @ snd (save_to_mongodb c w d e) @ post"
    and pre: "\<exists>s. pre = Print s \<or> pre = HttpGet s"
    and post: "post = [] \<or> (\<exists>s. post = [Print s])"
    using get_api_response_events[OF assms] by blast
  have 1: "\<not> is_db_event pre" using pre by auto
  have 2: "filter is_db_event post = []" using post by auto
  show ?thesis unfolding ev using 1 2 by (simp add: save_to_file_counts)
qed

lemma file_events_of_call:
  assumes "(test_mode c \<and> d = mock_data w e) \<or> (\<not> test_mode c \<and> http_fetch c w e = Inr d)"
  shows "filter is_file_event (snd (get_api_response c w e)) =
           filter is_file_event (snd (save_to_file c w d e))"
proof -
  obtain pre post where ev: "snd (get_api_response c w e) =
        pre # snd (save_to_file c w d e) @ snd (save_to_mongodb c w d e) @ post"
    and pre: "\<exists>s. pre = Print s \<or> pre = HttpGet s"
    and post: "post = [] \<or> (\<exists>s. post = [Print s])"
    using get_api_response_events[OF assms] by blast
  have 1: "\<not> is_file_event pre" using pre by auto
  have 2: "filter is_file_event post = []" using post by auto
  show ?thesis unfolding ev using 1 2 by (simp add: save_to_mongodb_counts)
qed

lemma attempts_of_call:
  assumes "(test_mode c \<and> d = mock_data w e) \<or> (\<not> test_mode c \<and> http_fetch c w e = Inr d)"
  shows "file_attempts (snd (get_api_response c w e)) = 1"
    and "db_attempts (snd (get_api_response c w e)) = 1"
proof -
  obtain pre post where ev: "snd (get_api_response c w e) =
        pre # snd (save_to_file c w d e) @ snd (save_to_mongodb c w d e) @ post"
    and pre: "\<exists>s. pre = Print s \<or> pre = HttpGet s"
    and post: "post = [] \<or> (\<exists>s. post = [Print s])"
    using get_api_response_events[OF assms] by blast
  have 1: "file_attempts (pre # xs) = file_attempts xs" "db_attempts (pre # xs) = db_attempts xs" for xs
    using pre by (auto simp: attempts_Cons_plain)
  have 2: "file_attempts post = 0" "db_attempts post = 0"
    using post by (auto simp: attempts_Cons_plain)
  show "file_attempts (snd (get_api_response c w e)) = 1"
    unfolding ev 1 attempts_append 2 by (simp add: save_to_file_counts save_to_mongodb_counts)
  show "db_attempts (snd (get_api_response c w e)) = 1"
    unfolding ev 1 attempts_append 2 by (simp add: save_to_file_counts save_to_mongodb_counts)
qed

text \<open>
  Claim C1. When the fetch of an endpoint gives a document (always in test mode; in live mode
  when the request, the status check and the decoding succeed), the call opens the file
  exactly once and makes the database client exactly once. Whatever the file-system calls
  do, the database calls of the run and the outcome of the database sink are the same; and
  whatever the database calls do, the file-system calls and the outcome of the file sink
  are the same.
\<close>

theorem dual_write_once_each:
  assumes "test_mode c \<or> (\<exists>d. http_fetch c w e = Inr d)"
  shows "file_attempts (snd (get_api_response c w e)) = 1
     \<and> db_attempts (snd (get_api_response c w e)) = 1
     \<and> (\<forall>fo jd. filter is_db_event (snd (get_api_response c (with_file_io w e fo jd) e)) =
                 filter is_db_event (snd (get_api_response c w e)))
     \<and> (\<forall>fo jd d. save_to_mongodb c (with_file_io w e fo jd) d e = save_to_mongodb c w d e)
     \<and> (\<forall>mc si ms ins cl.
           filter is_file_event (snd (get_api_response c (with_db_io w e mc si ms ins cl) e)) =
           filter is_file_event (snd (get_api_response c w e)))
     \<and> (\<forall>mc si ms ins cl d.
           save_to_file c (with_db_io w e mc si ms ins cl) d e = save_to_file c w d e)"
proof -
  obtain d where d: "(test_mode c \<and> d = mock_data w e) \<or> (\<not> test_mode c \<and> http_fetch c w e = Inr d)"
    using fetched_document[OF assms] by blast
  have a: "file_attempts (snd (get_api_response c w e)) = 1"
    and b: "db_attempts (snd (get_api_response c w e)) = 1"
    using attempts_of_call[OF d] by blast+
  have f: "filter is_db_event (snd (get_api_response c (with_file_io w e fo jd) e)) =
           filter is_db_event (snd (get_api_response c w e))" for fo jd
  proof -
    have d': "(test_mode c \<and> d = mock_data (with_file_io w e fo jd) e) \<or>
              (\<not> test_mode c \<and> http_fetch c (with_file_io w e fo jd) e = Inr d)"
      using d by (simp add: fetch_with_file_io)
    show ?thesis
      unfolding db_events_of_call[OF d'] db_events_of_call[OF d] save_to_mongodb_with_file_io ..
  qed
  have g: "filter is_file_event (snd (get_api_response c (with_db_io w e mc si ms ins cl) e)) =
           filter is_file_event (snd (get_api_response c w e))" for mc si ms ins cl
  proof -
    have d': "(test_mode c \<and> d = mock_data (with_db_io w e mc si ms ins cl) e) \<or>
              (\<not> test_mode c \<and> http_fetch c (with_db_io w e mc si ms ins cl) e = Inr d)"
      using d by (simp add: fetch_with_db_io)
    show ?thesis
      unfolding file_events_of_call[OF d'] file_events_of_call[OF d] save_to_file_with_db_io ..
  qed
  show ?thesis
    by (intro conjI allI a b f g save_to_mongodb_with_file_io save_to_file_with_db_io)
qed


text \<open>The theorem at a successful fetch of \<^verbatim>\<open>/redfish/v1\<close>, once against a file that
  cannot be opened and once against a database server that does not answer.\<close>

theorem dual_write_once_each_witness:
  "http_fetch demo_collector demo_world ''/redfish/v1'' = Inr demo_doc
   \<and> file_attempts (snd (get_api_response demo_collector demo_world ''/redfish/v1'')) = 1
   \<and> db_attempts (snd (get_api_response demo_collector demo_world ''/redfish/v1'')) = 1
   \<and> filter is_db_event (snd (get_api_response demo_collector
         (with_file_io demo_world ''/redfish/v1'' (Some (OtherException ''Permission denied'')) None)
         ''/redfish/v1'')) =
       filter is_db_event (snd (get_api_response demo_collector demo_world ''/redfish/v1''))
   \<and> filter is_file_event (snd (get_api_response demo_collector
         (with_db_io demo_world ''/redfish/v1'' None (Some (OtherException ''timed out'')) None
            (Inr ''0'') None)
         ''/redfish/v1'')) =
       filter is_file_event (snd (get_api_response demo_collector demo_world ''/redfish/v1''))"
proof -
  have h: "http_fetch demo_collector demo_world ''/redfish/v1'' = Inr demo_doc"
    by (simp add: http_fetch_def demo_world_def world_of_def demo_io_def raise_for_status_def
        response_json_def)
  then have "test_mode demo_collector \<or> (\<exists>d. http_fetch demo_collector demo_world ''/redfish/v1'' = Inr d)"
    by blast
  from dual_write_once_each[OF this] h show ?thesis by blast
qed

subsection \<open>Fetch errors\<close>

text \<open>A \<^verbatim>\<open>RequestException\<close> raised by the request, the status check or the decoding ends
  the call with \<^verbatim>\<open>None\<close>, after the request and one printed line.\<close>

lemma fetch_error_local:
  assumes "\<not> test_mode c" and "http_fetch c w e = Inl ex" and "is_RequestException ex"
  shows "get_api_response c w e =
           (Inr None, [HttpGet (base_url c @ e),
                       Print (''Error accessing '' @ base_url c @ e @ '': '' @ exn_str ex)])"
  using assms by (simp add: get_api_response_def except_RequestException_def)

text \<open>A call that returns lets the loop go on with the endpoints that follow.\<close>

lemma collect_loop_continues:
  assumes "fst (get_api_response c w e) = Inr v"
  shows "collect_loop c w (e # rest) =
           (fst (collect_loop c w rest),
            Print (CHR 0x0A # ''Collecting '' @ e) # snd (get_api_response c w e) @
              snd (collect_loop c w rest))"
  using assms by (cases "get_api_response c w e") (simp split: prod.splits)

lemma raise_for_status_4xx_5xx:
  assumes "400 \<le> status_code r" and "status_code r < 600"
  shows "\<exists>m. raise_for_status url r = Some (HTTPError m)"
  using assms by (simp add: raise_for_status_def)

lemma raise_for_status_other:
  assumes "status_code r < 400 \<or> 600 \<le> status_code r"
  shows "raise_for_status url r = None"
  using assms by (auto simp: raise_for_status_def)

lemmas call_defs =
  get_api_response_def except_RequestException_def http_fetch_def raise_for_status_def
  response_json_def save_both_def save_to_file_def save_to_mongodb_def get_mongo_client_def
  mongo_insert_def mongo_document_def mock_data_def

lemmas demo_defs = demo_world_def world_of_def demo_io_def demo_collector_def

text \<open>
  Claim C2, as amended. In live mode, when the request raises a \<^verbatim>\<open>RequestException\<close> (a
  connection error, a timeout) or the response has a status from 400 to 599, the call makes
  no write attempt at either sink, prints one line that names the URL and the error, and
  returns \<^verbatim>\<open>None\<close>; the loop then goes on with the endpoints that follow, exactly as it
  would have run on them alone.
\<close>

theorem fetch_failure_skips_sinks:
  assumes "\<not> test_mode c"
    and "(\<exists>ex. session_get (io w e) = Inl ex \<and> is_RequestException ex) \<or>
         (\<exists>r. session_get (io w e) = Inr r \<and> 400 \<le> status_code r \<and> status_code r < 600)"
  shows "\<exists>msg. get_api_response c w e =
             (Inr None, [HttpGet (base_url c @ e),
                         Print (''Error accessing '' @ base_url c @ e @ '': '' @ msg)])
           \<and> file_attempts (snd (get_api_response c w e)) = 0
           \<and> db_attempts (snd (get_api_response c w e)) = 0
           \<and> (\<forall>rest. collect_loop c w (e # rest) =
                 (fst (collect_loop c w rest),
                  Print (CHR 0x0A # ''Collecting '' @ e) # HttpGet (base_url c @ e) #
                  Print (''Error accessing '' @ base_url c @ e @ '': '' @ msg) #
                  snd (collect_loop c w rest)))"
proof -
  have "\<exists>ex. http_fetch c w e = Inl ex \<and> is_RequestException ex"
  proof -
    from assms(2) show ?thesis
    proof
      assume "\<exists>ex. session_get (io w e) = Inl ex \<and> is_RequestException ex"
      then show ?thesis by (auto simp: http_fetch_def)
    next
      assume "\<exists>r. session_get (io w e) = Inr r \<and> 400 \<le> status_code r \<and> status_code r < 600"
      then obtain r where r: "session_get (io w e) = Inr r" "400 \<le> status_code r" "status_code r < 600"
        by blast
      obtain m where "raise_for_status (base_url c @ e) r = Some (HTTPError m)"
        using raise_for_status_4xx_5xx[OF r(2) r(3)] by blast
      then show ?thesis using r(1) by (simp add: http_fetch_def)
    qed
  qed
  then obtain ex where ex: "http_fetch c w e = Inl ex" "is_RequestException ex" by blast
  note g = fetch_error_local[OF assms(1) ex]
  have l: "collect_loop c w (e # rest) =
             (fst (collect_loop c w rest),
              Print (CHR 0x0A # ''Collecting '' @ e) # HttpGet (base_url c @ e) #
              Print (''Error accessing '' @ base_url c @ e @ '': '' @ exn_str ex) #
              snd (collect_loop c w rest))" for rest
    using collect_loop_continues[of c w e None rest] unfolding g by simp
  have "file_attempts (snd (get_api_response c w e)) = 0"
       "db_attempts (snd (get_api_response c w e)) = 0"
    unfolding g by (simp_all add: file_attempts_def db_attempts_def)
  with g l show ?thesis by blast
qed


text \<open>The theorem at a response with status 401.\<close>

theorem fetch_failure_skips_sinks_witness:
  "\<not> test_mode demo_collector
   \<and> session_get (io (world_of (demo_io\<lparr>session_get :=
          Inr \<lparr>status_code = 401, reason = ''Unauthorized'', valid_json = False,
               loads = DecodeError ''Expecting value: line 1 column 1 (char 0)''\<rparr>\<rparr>)) ''/redfish/v1'')
       = Inr \<lparr>status_code = 401, reason = ''Unauthorized'', valid_json = False,
               loads = DecodeError ''Expecting value: line 1 column 1 (char 0)''\<rparr>
   \<and> fst (get_api_response demo_collector (world_of (demo_io\<lparr>session_get :=
          Inr \<lparr>status_code = 401, reason = ''Unauthorized'', valid_json = False,
               loads = DecodeError ''Expecting value: line 1 column 1 (char 0)''\<rparr>\<rparr>)) ''/redfish/v1'')
       = Inr None
   \<and> file_attempts (snd (get_api_response demo_collector (world_of (demo_io\<lparr>session_get :=
          Inr \<lparr>status_code = 401, reason = ''Unauthorized'', valid_json = False,
               loads = DecodeError ''Expecting value: line 1 column 1 (char 0)''\<rparr>\<rparr>)) ''/redfish/v1'')) = 0
   \<and> db_attempts (snd (get_api_response demo_collector (world_of (demo_io\<lparr>session_get :=
          Inr \<lparr>status_code = 401, reason = ''Unauthorized'', valid_json = False,
               loads = DecodeError ''Expecting value: line 1 column 1 (char 0)''\<rparr>\<rparr>)) ''/redfish/v1'')) = 0"
proof -
  let ?r = "\<lparr>status_code = 401, reason = ''Unauthorized'', valid_json = False,
               loads = DecodeError ''Expecting value: line 1 column 1 (char 0)''\<rparr>"
  let ?w = "world_of (demo_io\<lparr>session_get := Inr ?r\<rparr>)"
  have live: "\<not> test_mode demo_collector" by (simp add: demo_collector_def)
  have get: "session_get (io ?w ''/redfish/v1'') = Inr ?r" by (simp add: world_of_def)
  have "(\<exists>ex. session_get (io ?w ''/redfish/v1'') = Inl ex \<and> is_RequestException ex) \<or>
        (\<exists>r. session_get (io ?w ''/redfish/v1'') = Inr r \<and> 400 \<le> status_code r \<and> status_code r < 600)"
    using get by simp
  from fetch_failure_skips_sinks[OF live this] live get show ?thesis by auto
qed

text \<open>
  Claim C2 as stated speaks of every status outside 200 to 299. \<^verbatim>\<open>raise_for_status\<close> raises
  only from 400 on: a response with status 300 and a JSON body is written to both sinks and
  returned.
\<close>

theorem status_300_is_written_counterexample:
  "\<not> test_mode demo_collector
   \<and> session_get (io (world_of (demo_io\<lparr>session_get :=
          Inr \<lparr>status_code = 300, reason = ''Multiple Choices'', valid_json = True,
               loads = Loaded demo_doc\<rparr>\<rparr>))
        ''/redfish/v1'')
       = Inr \<lparr>status_code = 300, reason = ''Multiple Choices'', valid_json = True,
               loads = Loaded demo_doc\<rparr>
   \<and> fst (get_api_response demo_collector (world_of (demo_io\<lparr>session_get :=
          Inr \<lparr>status_code = 300, reason = ''Multiple Choices'', valid_json = True,
               loads = Loaded demo_doc\<rparr>\<rparr>))
        ''/redfish/v1'') = Inr (Some demo_doc)
   \<and> file_attempts (snd (get_api_response demo_collector (world_of (demo_io\<lparr>session_get :=
          Inr \<lparr>status_code = 300, reason = ''Multiple Choices'', valid_json = True,
               loads = Loaded demo_doc\<rparr>\<rparr>))
        ''/redfish/v1'')) = 1
   \<and> db_attempts (snd (get_api_response demo_collector (world_of (demo_io\<lparr>session_get :=
          Inr \<lparr>status_code = 300, reason = ''Multiple Choices'', valid_json = True,
               loads = Loaded demo_doc\<rparr>\<rparr>))
        ''/redfish/v1'')) = 1"
  by (simp add: call_defs demo_defs file_attempts_def db_attempts_def Let_def)

text \<open>An exception of the decoder that is not a \<^verbatim>\<open>RequestException\<close> is not caught at
  line 121 and leaves the call; nothing is written for that endpoint.\<close>

lemma decoder_exception_escapes:
  assumes "\<not> test_mode c"
    and "session_get (io w e) = Inr r"
    and "status_code r < 400 \<or> 600 \<le> status_code r"
    and "loads r = LoadsRaised ex" and "\<not> is_RequestException ex"
  shows "get_api_response c w e = (Inl ex, [HttpGet (base_url c @ e)])"
proof -
  have "raise_for_status (base_url c @ e) r = None"
    using assms(3) by (rule raise_for_status_other)
  then have "http_fetch c w e = Inl ex"
    using assms(2,4) by (simp add: http_fetch_def response_json_def)
  then show ?thesis
    using assms(1,5) by (simp add: get_api_response_def except_RequestException_def)
qed

text \<open>
  Claim C8, as amended. In live mode, a response with a status from 200 to 299 whose body
  the JSON decoder rejects with a \<^verbatim>\<open>JSONDecodeError\<close> ends the call like any other fetch
  failure: no write attempt at either sink, one printed line with the decoder's message,
  \<^verbatim>\<open>None\<close> returned, and the loop goes on with the endpoints that follow.
\<close>

theorem rejected_body_is_fetch_failure:
  assumes "\<not> test_mode c"
    and "session_get (io w e) = Inr r"
    and "200 \<le> status_code r" and "status_code r < 300"
    and "loads r = DecodeError msg"
  shows "get_api_response c w e =
             (Inr None, [HttpGet (base_url c @ e),
                         Print (''Error accessing '' @ base_url c @ e @ '': '' @ msg)])
           \<and> file_attempts (snd (get_api_response c w e)) = 0
           \<and> db_attempts (snd (get_api_response c w e)) = 0
           \<and> (\<forall>rest. collect_loop c w (e # rest) =
                 (fst (collect_loop c w rest),
                  Print (CHR 0x0A # ''Collecting '' @ e) # HttpGet (base_url c @ e) #
                  Print (''Error accessing '' @ base_url c @ e @ '': '' @ msg) #
                  snd (collect_loop c w rest)))"
proof -
  have "raise_for_status (base_url c @ e) r = None"
    using assms(4) by (intro raise_for_status_other) simp
  then have f: "http_fetch c w e = Inl (JSONDecodeError msg)"
    using assms(2,5) by (simp add: http_fetch_def response_json_def)
  have rq: "is_RequestException (JSONDecodeError msg)" by simp
  have g: "get_api_response c w e =
             (Inr None, [HttpGet (base_url c @ e),
                         Print (''Error accessing '' @ base_url c @ e @ '': '' @ msg)])"
    using fetch_error_local[OF assms(1) f rq] by simp
  have l: "collect_loop c w (e # rest) =
             (fst (collect_loop c w rest),
              Print (CHR 0x0A # ''Collecting '' @ e) # HttpGet (base_url c @ e) #
              Print (''Error accessing '' @ base_url c @ e @ '': '' @ msg) #
              snd (collect_loop c w rest))" for rest
    using collect_loop_continues[of c w e None rest] unfolding g by simp
  have "file_attempts (snd (get_api_response c w e)) = 0"
       "db_attempts (snd (get_api_response c w e)) = 0"
    unfolding g by (simp_all add: file_attempts_def db_attempts_def)
  with g l show ?thesis by blast
qed

text \<open>The theorem at a response with status 200 and an empty body.\<close>

theorem rejected_body_is_fetch_failure_witness:
  "\<not> test_mode demo_collector
   \<and> session_get (io (world_of (demo_io\<lparr>session_get :=
          Inr \<lparr>status_code = 200, reason = ''OK'', valid_json = False,
               loads = DecodeError ''Expecting value: line 1 column 1 (char 0)''\<rparr>\<rparr>))
        ''/redfish/v1/Chassis/1'')
       = Inr \<lparr>status_code = 200, reason = ''OK'', valid_json = False,
               loads = DecodeError ''Expecting value: line 1 column 1 (char 0)''\<rparr>
   \<and> get_api_response demo_collector (world_of (demo_io\<lparr>session_get :=
          Inr \<lparr>status_code = 200, reason = ''OK'', valid_json = False,
               loads = DecodeError ''Expecting value: line 1 column 1 (char 0)''\<rparr>\<rparr>))
        ''/redfish/v1/Chassis/1''
       = (Inr None,
          [HttpGet ''https://ilo.example.com/redfish/v1/Chassis/1'',
           Print ''Error accessing https://ilo.example.com/redfish/v1/Chassis/1: Expecting value: line 1 column 1 (char 0)''])
   \<and> file_attempts (snd (get_api_response demo_collector (world_of (demo_io\<lparr>session_get :=
          Inr \<lparr>status_code = 200, reason = ''OK'', valid_json = False,
               loads = DecodeError ''Expecting value: line 1 column 1 (char 0)''\<rparr>\<rparr>))
        ''/redfish/v1/Chassis/1'')) = 0
   \<and> db_attempts (snd (get_api_response demo_collector (world_of (demo_io\<lparr>session_get :=
          Inr \<lparr>status_code = 200, reason = ''OK'', valid_json = False,
               loads = DecodeError ''Expecting value: line 1 column 1 (char 0)''\<rparr>\<rparr>))
        ''/redfish/v1/Chassis/1'')) = 0"
proof -
  let ?r = "\<lparr>status_code = 200, reason = ''OK'', valid_json = False,
               loads = DecodeError ''Expecting value: line 1 column 1 (char 0)''\<rparr>"
  let ?w = "world_of (demo_io\<lparr>session_get := Inr ?r\<rparr>)"
  have live: "\<not> test_mode demo_collector" by (simp add: demo_collector_def)
  have get: "session_get (io ?w ''/redfish/v1/Chassis/1'') = Inr ?r" by (simp add: world_of_def)
  have s: "200 \<le> status_code ?r" "status_code ?r < 300"
    "loads ?r = DecodeError ''Expecting value: line 1 column 1 (char 0)''" by simp_all
  have b: "base_url demo_collector = ''https://ilo.example.com''" by (simp add: demo_collector_def)
  note t = rejected_body_is_fetch_failure[OF live get s]
  from t have "get_api_response demo_collector ?w ''/redfish/v1/Chassis/1'' =
      (Inr None, [HttpGet (base_url demo_collector @ ''/redfish/v1/Chassis/1''),
                  Print (''Error accessing '' @ base_url demo_collector @ ''/redfish/v1/Chassis/1'' @
                         '': '' @ ''Expecting value: line 1 column 1 (char 0)'')])"
    by (rule conjunct1)
  then have g: "get_api_response demo_collector ?w ''/redfish/v1/Chassis/1'' =
      (Inr None,
       [HttpGet ''https://ilo.example.com/redfish/v1/Chassis/1'',
        Print ''Error accessing https://ilo.example.com/redfish/v1/Chassis/1: Expecting value: line 1 column 1 (char 0)''])"
    by (simp add: b)
  from t have a: "file_attempts (snd (get_api_response demo_collector ?w ''/redfish/v1/Chassis/1'')) = 0"
    "db_attempts (snd (get_api_response demo_collector ?w ''/redfish/v1/Chassis/1'')) = 0"
    by blast+
  from live get g a show ?thesis by blast
qed

text \<open>
  Claim C8 as stated speaks of every body that is not valid JSON. The decoder accepts some
  of them: the body \<^verbatim>\<open>NaN\<close> is not a JSON text, it is decoded to a float, and the call
  writes it to both sinks and returns it.
\<close>

theorem NaN_body_is_written_counterexample:
  "\<not> test_mode demo_collector
   \<and> session_get (io (world_of (demo_io\<lparr>session_get :=
          Inr \<lparr>status_code = 200, reason = ''OK'', valid_json = False,
               loads = Loaded (VFloat ''nan'')\<rparr>\<rparr>)) ''/redfish/v1'')
       = Inr \<lparr>status_code = 200, reason = ''OK'', valid_json = False,
               loads = Loaded (VFloat ''nan'')\<rparr>
   \<and> \<not> valid_json \<lparr>status_code = 200, reason = ''OK'', valid_json = False,
               loads = Loaded (VFloat ''nan'')\<rparr>
   \<and> fst (get_api_response demo_collector (world_of (demo_io\<lparr>session_get :=
          Inr \<lparr>status_code = 200, reason = ''OK'', valid_json = False,
               loads = Loaded (VFloat ''nan'')\<rparr>\<rparr>)) ''/redfish/v1'')
       = Inr (Some (VFloat ''nan''))
   \<and> file_attempts (snd (get_api_response demo_collector (world_of (demo_io\<lparr>session_get :=
          Inr \<lparr>status_code = 200, reason = ''OK'', valid_json = False,
               loads = Loaded (VFloat ''nan'')\<rparr>\<rparr>)) ''/redfish/v1'')) = 1
   \<and> db_attempts (snd (get_api_response demo_collector (world_of (demo_io\<lparr>session_get :=
          Inr \<lparr>status_code = 200, reason = ''OK'', valid_json = False,
               loads = Loaded (VFloat ''nan'')\<rparr>\<rparr>)) ''/redfish/v1'')) = 1"
  by (simp add: call_defs demo_defs file_attempts_def db_attempts_def Let_def)

subsection \<open>The database sink\<close>

text \<open>The only document the sink inserts is the one of lines 62 to 68, into the configured
  database and collection.\<close>

lemma inserted_document:
  assumes "InsertOne db coll doc \<in> set (snd (save_to_mongodb c w d e))"
  shows "db = mongo_db c \<and> coll = mongo_collection c \<and> doc = mongo_document c w d e"
  using assms
  by (auto simp: save_to_mongodb_def get_mongo_client_def mongo_insert_def
      split: option.splits sum.splits)

text \<open>Once there is a client, closing it is the last call of the sink and happens once.\<close>

lemma client_closed_on_every_path:
  assumes "fst (get_mongo_client c w e)"
  shows "\<exists>evs. snd (save_to_mongodb c w d e) = evs @ [ClientClose] \<and> ClientClose \<notin> set evs"
  using assms
  by (auto simp: save_to_mongodb_def get_mongo_client_def mongo_insert_def
      split: option.splits sum.splits)

lemma no_client_nothing_to_close:
  assumes "\<not> fst (get_mongo_client c w e)"
  shows "fst (save_to_mongodb c w d e) = Inr False \<and> ClientClose \<notin> set (snd (save_to_mongodb c w d e))"
  using assms
  by (auto simp: save_to_mongodb_def get_mongo_client_def mongo_insert_def
      split: option.splits sum.splits)

text \<open>A client whose liveness check fails is dropped by \<^verbatim>\<open>_get_mongo_client\<close> without being
  closed: the sink sees no client and returns \<^verbatim>\<open>False\<close>.\<close>

lemma client_left_open_when_liveness_check_fails:
  assumes "mongo_client_new (io w e) = None" and "server_info (io w e) = Some ex"
  shows "save_to_mongodb c w d e =
           (Inr False, [MongoClientNew (mongo_uri c) 5000, ServerInfo,
                        Print (''MongoDB connection error: '' @ exn_str ex)])"
  using assms by (simp add: save_to_mongodb_def get_mongo_client_def)

text \<open>Exceptions of the connection, the liveness check, the selection and the insertion are
  caught: when closing does not raise, the sink returns a boolean.\<close>

lemma sink_returns_unless_close_raises:
  assumes "client_close (io w e) = None"
  shows "\<exists>b. fst (save_to_mongodb c w d e) = Inr b"
  using assms
  by (auto simp: save_to_mongodb_def get_mongo_client_def mongo_insert_def
      split: option.splits sum.splits)

lemma close_exception_leaves_sink:
  assumes "fst (get_mongo_client c w e)" and "client_close (io w e) = Some ex"
  shows "fst (save_to_mongodb c w d e) = Inl ex"
  using assms
  by (auto simp: save_to_mongodb_def get_mongo_client_def mongo_insert_def
      split: option.splits sum.splits)

text \<open>
  Claim C4, as amended. Every document handed to \<^verbatim>\<open>insert_one\<close> goes to the configured
  database and collection and is a dictionary with exactly the keys \<^verbatim>\<open>endpoint\<close> (the
  endpoint string), \<^verbatim>\<open>data\<close> (the collected document, unchanged), \<^verbatim>\<open>collection_date\<close>
  (the UTC clock read inside the write), \<^verbatim>\<open>source\<close> (the base URL) and \<^verbatim>\<open>test_mode\<close>
  (the collector's mode flag).
\<close>

theorem persistence_record_fields:
  assumes "InsertOne db coll doc \<in> set (snd (save_to_mongodb c w d e))"
  shows "db = mongo_db c \<and> coll = mongo_collection c
     \<and> dict_keys doc = [''endpoint'', ''data'', ''collection_date'', ''source'', ''test_mode'']
     \<and> dict_get doc ''endpoint'' = Some (VStr e)
     \<and> dict_get doc ''data'' = Some d
     \<and> dict_get doc ''collection_date'' = Some (VDate (utcnow_write (io w e)))
     \<and> dict_get doc ''source'' = Some (VStr (base_url c))
     \<and> dict_get doc ''test_mode'' = Some (VBool (test_mode c))"
proof -
  from inserted_document[OF assms]
  have "db = mongo_db c" "coll = mongo_collection c" and doc: "doc = mongo_document c w d e"
    by blast+
  then show ?thesis by (simp add: mongo_document_def)
qed

text \<open>The theorem at the insertion made for \<^verbatim>\<open>/redfish/v1\<close> when every call succeeds.\<close>

theorem persistence_record_fields_witness:
  "InsertOne ''ilo'' ''redfish'' (mongo_document demo_collector demo_world demo_doc ''/redfish/v1'')
     \<in> set (snd (save_to_mongodb demo_collector demo_world demo_doc ''/redfish/v1''))
   \<and> dict_keys (mongo_document demo_collector demo_world demo_doc ''/redfish/v1'') =
       [''endpoint'', ''data'', ''collection_date'', ''source'', ''test_mode'']
   \<and> dict_get (mongo_document demo_collector demo_world demo_doc ''/redfish/v1'') ''data'' =
       Some demo_doc
   \<and> dict_get (mongo_document demo_collector demo_world demo_doc ''/redfish/v1'') ''source'' =
       Some (VStr ''https://ilo.example.com'')"
proof -
  have m: "InsertOne ''ilo'' ''redfish'' (mongo_document demo_collector demo_world demo_doc ''/redfish/v1'')
     \<in> set (snd (save_to_mongodb demo_collector demo_world demo_doc ''/redfish/v1''))"
    by (simp add: save_to_mongodb_def get_mongo_client_def mongo_insert_def demo_world_def
        world_of_def demo_io_def demo_collector_def)
  have b: "base_url demo_collector = ''https://ilo.example.com''" by (simp add: demo_collector_def)
  from persistence_record_fields[OF m] m b show ?thesis by simp
qed

text \<open>
  Claim C4 as stated names the fifth field \<^verbatim>\<open>simulation_mode\<close>. The inserted document has
  no such key; the flag is stored under \<^verbatim>\<open>test_mode\<close>.
\<close>

theorem record_has_no_simulation_mode_counterexample:
  "InsertOne ''ilo'' ''redfish'' (mongo_document demo_collector demo_world demo_doc ''/redfish/v1'')
     \<in> set (snd (save_to_mongodb demo_collector demo_world demo_doc ''/redfish/v1''))
   \<and> dict_get (mongo_document demo_collector demo_world demo_doc ''/redfish/v1'') ''simulation_mode''
       = None
   \<and> dict_get (mongo_document demo_collector demo_world demo_doc ''/redfish/v1'') ''test_mode''
       = Some (VBool False)"
  by (simp add: save_to_mongodb_def get_mongo_client_def mongo_insert_def mongo_document_def
      demo_world_def world_of_def demo_io_def demo_collector_def)

text \<open>
  Claim C7. The connection is closed on every path once the sink holds a client
  (\<open>client_closed_on_every_path\<close>), and exceptions of the connection, the selection and the
  insertion are caught (\<open>sink_returns_unless_close_raises\<close>). A client made before the
  liveness check fails is never closed
  (\<open>client_left_open_when_liveness_check_fails\<close>). An exception raised by
  \<^verbatim>\<open>client.close()\<close> itself is not caught: the call stands in the \<^verbatim>\<open>finally\<close> block.
  Evaluated where every call succeeds and closing raises: the exception leaves
  \<^verbatim>\<open>_save_to_mongodb\<close>, then \<^verbatim>\<open>get_api_response\<close>, then \<^verbatim>\<open>collect_all\<close>, and the run
  ends after the first of the four endpoints.
\<close>

theorem close_exception_escapes:
  "save_to_mongodb demo_collector
     (world_of (demo_io\<lparr>client_close := Some (OtherException ''connection reset'')\<rparr>))
     demo_doc ''/redfish/v1'' =
     (Inl (OtherException ''connection reset''),
      [MongoClientNew ''mongodb://localhost:27017'' 5000, ServerInfo,
       InsertOne ''ilo'' ''redfish''
         (VDict [(''endpoint'', VStr ''/redfish/v1''), (''data'', demo_doc),
                 (''collection_date'', VDate demo_time),
                 (''source'', VStr ''https://ilo.example.com''), (''test_mode'', VBool False)]),
       Print ''Successfully saved to MongoDB (ID: 65f0c0ffee)'', ClientClose])
   \<and> fst (get_api_response demo_collector
        (world_of (demo_io\<lparr>client_close := Some (OtherException ''connection reset'')\<rparr>))
        ''/redfish/v1'') = Inl (OtherException ''connection reset'')
   \<and> fst (collect_all demo_collector
        (world_of (demo_io\<lparr>client_close := Some (OtherException ''connection reset'')\<rparr>)))
       = Inl (OtherException ''connection reset'')
   \<and> file_attempts (snd (collect_all demo_collector
        (world_of (demo_io\<lparr>client_close := Some (OtherException ''connection reset'')\<rparr>)))) = 1"
  by (simp add: collect_all_def call_defs world_of_def demo_io_def demo_collector_def
      file_attempts_def Let_def)

text \<open>
  Claim C10. With the same successful fetch, the call returns the document when closing the
  client succeeds and returns nothing (the exception leaves the method) when closing raises.
  Apart from that the returned value is decided by the fetch alone
  (\<open>return_value_of_fetch\<close> below).
\<close>

theorem return_value_lost_when_close_raises:
  "http_fetch demo_collector
     (world_of (demo_io\<lparr>client_close := Some (OtherException ''connection reset'')\<rparr>))
     ''/redfish/v1'' = Inr demo_doc
   \<and> http_fetch demo_collector (world_of demo_io) ''/redfish/v1'' = Inr demo_doc
   \<and> fst (get_api_response demo_collector (world_of demo_io) ''/redfish/v1'') = Inr (Some demo_doc)
   \<and> fst (get_api_response demo_collector
        (world_of (demo_io\<lparr>client_close := Some (OtherException ''connection reset'')\<rparr>))
        ''/redfish/v1'') = Inl (OtherException ''connection reset'')"
  by (simp add: call_defs world_of_def demo_io_def demo_collector_def Let_def)

text \<open>When closing the client does not raise, what the call returns is decided by the fetch
  alone.\<close>

lemma return_value_of_fetch:
  assumes "client_close (io w e) = None"
  shows "fst (get_api_response c w e) =
           (if test_mode c then Inr (Some (mock_data w e))
            else case http_fetch c w e of
                   Inr d \<Rightarrow> Inr (Some d)
                 | Inl ex \<Rightarrow> if is_RequestException ex then Inr None else Inl ex)"
proof -
  have sb: "\<exists>evs. save_both c w d e = (Inr (Some d), evs)" for d
    using sink_returns_unless_close_raises[OF assms, of c d]
    by (auto simp: save_both_def split: prod.splits sum.splits)
  show ?thesis
  proof (cases "test_mode c")
    case True
    obtain evs where "save_both c w (mock_data w e) e = (Inr (Some (mock_data w e)), evs)"
      using sb by blast
    then show ?thesis
      using True by (simp add: get_api_response_def)
  next
    case False
    show ?thesis
    proof (cases "http_fetch c w e")
      case (Inl ex)
      then show ?thesis using False
        by (simp add: get_api_response_def except_RequestException_def)
    next
      case (Inr d)
      obtain evs where "save_both c w d e = (Inr (Some d), evs)"
        using sb by blast
      then show ?thesis using False Inr
        by (simp add: get_api_response_def except_RequestException_def)
    qed
  qed
qed

subsection \<open>Start-up\<close>

lemma py_join_mentions:
  "v \<in> set xs \<Longrightarrow> \<exists>pre post. py_join sep xs = pre @ v @ post"
proof (induction sep xs rule: py_join.induct)
  case (1 sep)
  then show ?case by simp
next
  case (2 sep x)
  then have "py_join sep [x] = [] @ v @ []" by simp
  then show ?case by blast
next
  case (3 sep x y ys)
  show ?case
  proof (cases "v = x")
    case True
    then have "py_join sep (x # y # ys) = [] @ v @ (sep @ py_join sep (y # ys))" by simp
    then show ?thesis by blast
  next
    case False
    with 3 obtain pre post where "py_join sep (y # ys) = pre @ v @ post" by auto
    then have "py_join sep (x # y # ys) = (x @ sep @ pre) @ v @ post" by simp
    then show ?thesis by blast
  qed
qed

lemma missing_set:
  "set (missing env) = {v \<in> set required_vars. env v = None \<or> env v = Some []}"
proof -
  have "\<not> py_truthy x \<longleftrightarrow> x = None \<or> x = Some []" for x
    by (cases x) auto
  then show ?thesis by (auto simp: missing_def getenv_def)
qed

text \<open>
  Claim C6. When the run is not in test mode and one of \<^verbatim>\<open>ILO_HOST\<close>, \<^verbatim>\<open>ILO_USER\<close>,
  \<^verbatim>\<open>ILO_PASSWORD\<close> is unset or empty, \<^verbatim>\<open>main\<close> raises a \<^verbatim>\<open>ValueError\<close> whose message
  contains the name of every such variable, and nothing has happened before: no directory
  made, no request sent, no line printed. The variables reported are exactly the required
  ones that are unset or empty. When none is missing, no such error is raised: \<^verbatim>\<open>main\<close>
  builds the collector from the three values and runs the collection.
\<close>

theorem missing_credentials_abort:
  assumes "\<not> test_mode_flag (load_dotenv dotenv environ0)"
  shows "(missing (load_dotenv dotenv environ0) \<noteq> [] \<longrightarrow>
            main dotenv environ0 w =
              (Inl (ValueError (''Missing required ILO credentials: '' @
                      py_join '', '' (missing (load_dotenv dotenv environ0)))), [])
            \<and> (\<forall>v \<in> set (missing (load_dotenv dotenv environ0)).
                  \<exists>pre post. py_join '', '' (missing (load_dotenv dotenv environ0)) = pre @ v @ post))
     \<and> set (missing (load_dotenv dotenv environ0)) =
         {v \<in> set [''ILO_HOST'', ''ILO_USER'', ''ILO_PASSWORD''].
            load_dotenv dotenv environ0 v = None \<or> load_dotenv dotenv environ0 v = Some []}
     \<and> (missing (load_dotenv dotenv environ0) = [] \<longrightarrow>
            main dotenv environ0 w =
              run (init w (load_dotenv dotenv environ0)
                     (load_dotenv dotenv environ0 ''ILO_HOST'')
                     (load_dotenv dotenv environ0 ''ILO_USER'')
                     (load_dotenv dotenv environ0 ''ILO_PASSWORD'') False) w)"
proof (intro conjI impI ballI)
  assume "missing (load_dotenv dotenv environ0) \<noteq> []"
  then show "main dotenv environ0 w =
              (Inl (ValueError (''Missing required ILO credentials: '' @
                      py_join '', '' (missing (load_dotenv dotenv environ0)))), [])"
    using assms by (simp add: main_def Let_def)
next
  fix v assume "v \<in> set (missing (load_dotenv dotenv environ0))"
  then show "\<exists>pre post. py_join '', '' (missing (load_dotenv dotenv environ0)) = pre @ v @ post"
    by (rule py_join_mentions)
next
  show "set (missing (load_dotenv dotenv environ0)) =
         {v \<in> set [''ILO_HOST'', ''ILO_USER'', ''ILO_PASSWORD''].
            load_dotenv dotenv environ0 v = None \<or> load_dotenv dotenv environ0 v = Some []}"
    using missing_set[of "load_dotenv dotenv environ0"] by (simp only: required_vars_def)
next
  assume "missing (load_dotenv dotenv environ0) = []"
  then show "main dotenv environ0 w =
              run (init w (load_dotenv dotenv environ0)
                     (load_dotenv dotenv environ0 ''ILO_HOST'')
                     (load_dotenv dotenv environ0 ''ILO_USER'')
                     (load_dotenv dotenv environ0 ''ILO_PASSWORD'') False) w"
    using assms by (simp add: main_def Let_def getenv_def)
qed

lemmas env_defs = load_dotenv_def environ_of_def test_mode_flag_def getenv_default_def getenv_def
  py_lower_def lower_char_def missing_def required_vars_def

text \<open>The theorem with only \<^verbatim>\<open>ILO_HOST\<close> set (and \<^verbatim>\<open>ILO_USER\<close> empty in the \<^verbatim>\<open>.env\<close>
  file), and with all three set.\<close>

theorem missing_credentials_abort_witness:
  "\<not> test_mode_flag (load_dotenv (environ_of [(''ILO_USER'', '''')])
                        (environ_of [(''ILO_HOST'', ''10.0.0.5'')]))
   \<and> main (environ_of [(''ILO_USER'', '''')]) (environ_of [(''ILO_HOST'', ''10.0.0.5'')]) demo_world =
       (Inl (ValueError ''Missing required ILO credentials: ILO_USER, ILO_PASSWORD''), [])
   \<and> \<not> test_mode_flag (load_dotenv (environ_of [(''ILO_USER'', ''admin''), (''ILO_PASSWORD'', ''secret'')])
                        (environ_of [(''ILO_HOST'', ''10.0.0.5'')]))
   \<and> main (environ_of [(''ILO_USER'', ''admin''), (''ILO_PASSWORD'', ''secret'')])
          (environ_of [(''ILO_HOST'', ''10.0.0.5'')]) demo_world =
       run (init demo_world
              (load_dotenv (environ_of [(''ILO_USER'', ''admin''), (''ILO_PASSWORD'', ''secret'')])
                 (environ_of [(''ILO_HOST'', ''10.0.0.5'')]))
              (Some ''10.0.0.5'') (Some ''admin'') (Some ''secret'') False) demo_world"
proof -
  let ?d1 = "environ_of [(''ILO_USER'', '''')]"
  let ?d2 = "environ_of [(''ILO_USER'', ''admin''), (''ILO_PASSWORD'', ''secret'')]"
  let ?e = "environ_of [(''ILO_HOST'', ''10.0.0.5'')]"
  have t1: "\<not> test_mode_flag (load_dotenv ?d1 ?e)" by (simp add: env_defs)
  have t2: "\<not> test_mode_flag (load_dotenv ?d2 ?e)" by (simp add: env_defs)
  have m1: "missing (load_dotenv ?d1 ?e) = [''ILO_USER'', ''ILO_PASSWORD'']" by (simp add: env_defs)
  have m2: "missing (load_dotenv ?d2 ?e) = []" by (simp add: env_defs)
  have v2: "load_dotenv ?d2 ?e ''ILO_HOST'' = Some ''10.0.0.5''"
    "load_dotenv ?d2 ?e ''ILO_USER'' = Some ''admin''"
    "load_dotenv ?d2 ?e ''ILO_PASSWORD'' = Some ''secret''"
    by (simp_all add: env_defs)
  have 1: "main ?d1 ?e demo_world =
       (Inl (ValueError ''Missing required ILO credentials: ILO_USER, ILO_PASSWORD''), [])"
    using missing_credentials_abort[OF t1, of demo_world] unfolding m1 by simp
  have 2: "main ?d2 ?e demo_world =
       run (init demo_world (load_dotenv ?d2 ?e) (Some ''10.0.0.5'') (Some ''admin'')
              (Some ''secret'') False) demo_world"
    using missing_credentials_abort[OF t2, of demo_world] unfolding m2 v2 by simp
  from t1 1 t2 2 show ?thesis by blast
qed


lemma sink_connects_to_stored_uri:
  "\<exists>rest. snd (save_to_mongodb c w d e) = MongoClientNew (mongo_uri c) 5000 # rest"
  by (auto simp: save_to_mongodb_def get_mongo_client_def mongo_insert_def
      split: option.splits sum.splits)

text \<open>
  Claim C9, as amended. Each of \<^verbatim>\<open>MONGO_URI\<close>, \<^verbatim>\<open>MONGO_DB\<close>, \<^verbatim>\<open>MONGO_COLLECTION\<close> is stored
  through \<^verbatim>\<open>str()\<close>, so an unset variable is stored as the string \<^verbatim>\<open>None\<close>. The settings
  never make the construction fail: it fails only when the output directory cannot be made.
  At write time the sink connects to the stored URI and inserts into the stored database and
  collection, the name \<^verbatim>\<open>None\<close> included; whether that write fails is up to the driver
  and the server.
\<close>

theorem unset_mongo_settings_become_None:
  "(makedirs w = None \<longrightarrow>
      (\<exists>c. init w env host username password tm = (Inr c, [MakeDirs ''redfish_data''])
         \<and> mongo_uri c = py_str (env ''MONGO_URI'')
         \<and> mongo_db c = py_str (env ''MONGO_DB'')
         \<and> mongo_collection c = py_str (env ''MONGO_COLLECTION'')
         \<and> (env ''MONGO_URI'' = None \<longrightarrow> mongo_uri c = ''None'')
         \<and> (env ''MONGO_DB'' = None \<longrightarrow> mongo_db c = ''None'')
         \<and> (env ''MONGO_COLLECTION'' = None \<longrightarrow> mongo_collection c = ''None'')))
   \<and> (\<forall>ex. fst (init w env host username password tm) = Inl ex \<longrightarrow> makedirs w = Some ex)
   \<and> (\<forall>c d e. \<exists>rest. snd (save_to_mongodb c w d e) = MongoClientNew (mongo_uri c) 5000 # rest)
   \<and> (\<forall>c d e db coll doc. InsertOne db coll doc \<in> set (snd (save_to_mongodb c w d e)) \<longrightarrow>
          db = mongo_db c \<and> coll = mongo_collection c)"
proof (intro conjI allI impI)
  assume "makedirs w = None"
  then show "\<exists>c. init w env host username password tm = (Inr c, [MakeDirs ''redfish_data''])
         \<and> mongo_uri c = py_str (env ''MONGO_URI'')
         \<and> mongo_db c = py_str (env ''MONGO_DB'')
         \<and> mongo_collection c = py_str (env ''MONGO_COLLECTION'')
         \<and> (env ''MONGO_URI'' = None \<longrightarrow> mongo_uri c = ''None'')
         \<and> (env ''MONGO_DB'' = None \<longrightarrow> mongo_db c = ''None'')
         \<and> (env ''MONGO_COLLECTION'' = None \<longrightarrow> mongo_collection c = ''None'')"
    by (simp add: init_def getenv_def)
next
  fix ex assume "fst (init w env host username password tm) = Inl ex"
  then show "makedirs w = Some ex"
    by (simp add: init_def split: option.splits)
next
  fix c d e
  show "\<exists>rest. snd (save_to_mongodb c w d e) = MongoClientNew (mongo_uri c) 5000 # rest"
    by (rule sink_connects_to_stored_uri)
next
  fix c d e db coll doc
  assume "InsertOne db coll doc \<in> set (snd (save_to_mongodb c w d e))"
  then show "db = mongo_db c" "coll = mongo_collection c"
    using inserted_document by blast+
qed

text \<open>The theorem with only \<^verbatim>\<open>MONGO_DB\<close> set.\<close>

theorem unset_mongo_settings_become_None_witness:
  "makedirs demo_world = None
   \<and> environ_of [(''MONGO_DB'', ''ilo'')] ''MONGO_URI'' = None
   \<and> environ_of [(''MONGO_DB'', ''ilo'')] ''MONGO_COLLECTION'' = None
   \<and> init demo_world (environ_of [(''MONGO_DB'', ''ilo'')])
         (Some ''ilo.example.com'') (Some ''admin'') (Some ''secret'') False =
       (Inr (demo_collector\<lparr>mongo_uri := ''None'', mongo_collection := ''None''\<rparr>),
        [MakeDirs ''redfish_data''])
   \<and> hd (snd (save_to_mongodb (demo_collector\<lparr>mongo_uri := ''None'', mongo_collection := ''None''\<rparr>)
         demo_world demo_doc ''/redfish/v1'')) = MongoClientNew ''None'' 5000"
proof -
  let ?env = "environ_of [(''MONGO_DB'', ''ilo'')]"
  let ?c = "demo_collector\<lparr>mongo_uri := ''None'', mongo_collection := ''None''\<rparr>"
  note t = unset_mongo_settings_become_None[of demo_world ?env "Some ''ilo.example.com''"
      "Some ''admin''" "Some ''secret''" False]
  have mk: "makedirs demo_world = None" by (simp add: demo_world_def world_of_def)
  have u: "?env ''MONGO_URI'' = None" "?env ''MONGO_COLLECTION'' = None"
    by (simp_all add: environ_of_def)
  have db: "?env ''MONGO_DB'' = Some ''ilo''" by (simp add: environ_of_def)
  from t mk obtain c where c: "init demo_world ?env (Some ''ilo.example.com'') (Some ''admin'')
        (Some ''secret'') False = (Inr c, [MakeDirs ''redfish_data''])"
    and f: "mongo_uri c = ''None''" "mongo_collection c = ''None''" "mongo_db c = py_str (?env ''MONGO_DB'')"
    using u by auto
  have "c = ?c" using c u db
    by (auto simp: init_def mk demo_collector_def getenv_def)
  then have 1: "init demo_world ?env (Some ''ilo.example.com'') (Some ''admin'')
        (Some ''secret'') False = (Inr ?c, [MakeDirs ''redfish_data''])" using c by simp
  from t obtain rest where "snd (save_to_mongodb ?c demo_world demo_doc ''/redfish/v1'') =
      MongoClientNew (mongo_uri ?c) 5000 # rest" by blast
  then have 2: "hd (snd (save_to_mongodb ?c demo_world demo_doc ''/redfish/v1'')) =
      MongoClientNew ''None'' 5000" by simp
  from mk u 1 2 show ?thesis by blast
qed

text \<open>
  Claim C9 as stated has the sink fail at write time. With \<^verbatim>\<open>MONGO_URI\<close> set and the two
  names unset, against a server that answers, the sink inserts into database \<^verbatim>\<open>None\<close>,
  collection \<^verbatim>\<open>None\<close>, and returns \<^verbatim>\<open>True\<close>.
\<close>

theorem unset_names_sink_succeeds_counterexample:
  "environ_of [(''MONGO_URI'', ''mongodb://localhost:27017'')] ''MONGO_DB'' = None
   \<and> environ_of [(''MONGO_URI'', ''mongodb://localhost:27017'')] ''MONGO_COLLECTION'' = None
   \<and> init demo_world (environ_of [(''MONGO_URI'', ''mongodb://localhost:27017'')])
         (Some ''ilo.example.com'') (Some ''admin'') (Some ''secret'') False =
       (Inr (demo_collector\<lparr>mongo_db := ''None'', mongo_collection := ''None''\<rparr>),
        [MakeDirs ''redfish_data''])
   \<and> save_to_mongodb (demo_collector\<lparr>mongo_db := ''None'', mongo_collection := ''None''\<rparr>)
         demo_world demo_doc ''/redfish/v1'' =
       (Inr True,
        [MongoClientNew ''mongodb://localhost:27017'' 5000, ServerInfo,
         InsertOne ''None'' ''None''
           (VDict [(''endpoint'', VStr ''/redfish/v1''), (''data'', demo_doc),
                   (''collection_date'', VDate demo_time),
                   (''source'', VStr ''https://ilo.example.com''), (''test_mode'', VBool False)]),
         Print ''Successfully saved to MongoDB (ID: 65f0c0ffee)'', ClientClose])"
  by (simp add: init_def getenv_def environ_of_def save_to_mongodb_def get_mongo_client_def
      mongo_insert_def mongo_document_def demo_world_def world_of_def demo_io_def
      demo_collector_def)

subsection \<open>Test mode\<close>

lemma digit_char_is_digit: "is_digit (digit_char n)"
proof -
  have "n mod 10 < length ''0123456789''" by simp
  then have "''0123456789'' ! (n mod 10) \<in> set ''0123456789''" by (rule nth_mem)
  then show ?thesis unfolding is_digit_def digit_char_def .
qed

lemma show_nat_digits: "list_all is_digit (show_nat n)"
proof (induction n rule: show_nat.induct)
  case (1 n)
  show ?case
  proof (cases "n < 10")
    case True
    then show ?thesis by (subst show_nat.simps) (simp add: digit_char_is_digit)
  next
    case False
    then show ?thesis using 1 by (subst show_nat.simps) (simp add: digit_char_is_digit)
  qed
qed

lemma length_show_nat: "n < 10 ^ w \<Longrightarrow> 0 < w \<Longrightarrow> length (show_nat n) \<le> w"
proof (induction w arbitrary: n)
  case 0
  then show ?case by simp
next
  case (Suc k)
  show ?case
  proof (cases "n < 10")
    case True
    then show ?thesis by (subst show_nat.simps) simp
  next
    case False
    have lt: "n div 10 < 10 ^ k" using Suc.prems(1) by (simp add: less_mult_imp_div_less mult.commute)
    have "0 < k"
    proof (rule ccontr)
      assume "\<not> 0 < k"
      then have "k = 0" by simp
      with Suc.prems(1) False show False by simp
    qed
    from Suc.IH[OF lt this] have "length (show_nat (n div 10)) \<le> k" .
    then show ?thesis using False by (subst show_nat.simps) simp
  qed
qed

lemma zpad_digits:
  assumes "n < 10 ^ w" and "0 < w"
  shows "length (zpad w n) = w" and "list_all is_digit (zpad w n)"
proof -
  have l: "length (show_nat n) \<le> w" using assms by (rule length_show_nat)
  then show "length (zpad w n) = w" by (simp add: zpad_def)
  have "is_digit CHR ''0''" by (simp add: is_digit_def)
  then have "list_all is_digit (replicate (w - length (show_nat n)) CHR ''0'')"
    by (simp add: list_all_iff)
  then show "list_all is_digit (zpad w n)"
    by (simp add: zpad_def show_nat_digits)
qed

lemma matches_digits:
  "list_all is_digit s \<Longrightarrow> matches_template (replicate (length s) CHR ''d'') s"
  by (induction s) (simp_all add: matches_template_def)

lemma matches_zpad:
  assumes "n < 10 ^ w" and "0 < w"
  shows "matches_template (replicate w CHR ''d'') (zpad w n)"
  using matches_digits[OF zpad_digits(2)[OF assms]] zpad_digits(1)[OF assms] by simp

lemma matches_append:
  "matches_template t1 s1 \<Longrightarrow> matches_template t2 s2 \<Longrightarrow> matches_template (t1 @ t2) (s1 @ s2)"
  unfolding matches_template_def by (rule list_all2_appendI)

lemma matches_separator:
  "matches_template ''-'' ''-''" "matches_template ''T'' ''T''" "matches_template '':'' '':''"
  "matches_template ''.'' ''.''"
  by (simp_all add: matches_template_def)

text \<open>\<^verbatim>\<open>isoformat\<close> of a \<^verbatim>\<open>datetime\<close> has the ISO-8601 shape.\<close>

lemma isoformat_is_iso8601:
  assumes "valid_datetime d"
  shows "is_iso8601 (isoformat d)"
proof -
  from assms have y: "dt_year d < 10 ^ 4" and mo: "dt_month d < 10 ^ 2" and da: "dt_day d < 10 ^ 2"
    and h: "dt_hour d < 10 ^ 2" and mi: "dt_minute d < 10 ^ 2" and s: "dt_second d < 10 ^ 2"
    and us: "dt_microsecond d < 10 ^ 6"
    by (simp_all add: valid_datetime_def)
  let ?base = "zpad 4 (dt_year d) @ ''-'' @ zpad 2 (dt_month d) @ ''-'' @ zpad 2 (dt_day d) @ ''T'' @
     zpad 2 (dt_hour d) @ '':'' @ zpad 2 (dt_minute d) @ '':'' @ zpad 2 (dt_second d)"
  have b: "matches_template
      (replicate 4 CHR ''d'' @ ''-'' @ replicate 2 CHR ''d'' @ ''-'' @ replicate 2 CHR ''d'' @ ''T'' @
       replicate 2 CHR ''d'' @ '':'' @ replicate 2 CHR ''d'' @ '':'' @ replicate 2 CHR ''d'') ?base"
    by (intro matches_append matches_separator matches_zpad y mo da h mi s) simp_all
  have t1: "replicate 4 CHR ''d'' @ ''-'' @ replicate 2 CHR ''d'' @ ''-'' @ replicate 2 CHR ''d'' @ ''T'' @
       replicate 2 CHR ''d'' @ '':'' @ replicate 2 CHR ''d'' @ '':'' @ replicate 2 CHR ''d''
       = ''dddd-dd-ddTdd:dd:dd''"
    by (simp add: eval_nat_numeral)
  have b': "matches_template ''dddd-dd-ddTdd:dd:dd'' ?base" using b unfolding t1 .
  show ?thesis
  proof (cases "dt_microsecond d = 0")
    case True
    then have "isoformat d = ?base" by (simp add: isoformat_def)
    then show ?thesis using b' by (simp add: is_iso8601_def)
  next
    case False
    then have i: "isoformat d = ?base @ ''.'' @ zpad 6 (dt_microsecond d)"
      by (simp add: isoformat_def)
    have "matches_template (''dddd-dd-ddTdd:dd:dd'' @ ''.'' @ replicate 6 CHR ''d'')
            (?base @ ''.'' @ zpad 6 (dt_microsecond d))"
      by (intro matches_append b' matches_separator matches_zpad us) simp
    moreover have "''dddd-dd-ddTdd:dd:dd'' @ ''.'' @ replicate 6 CHR ''d'' = ''dddd-dd-ddTdd:dd:dd.dddddd''"
      by (simp add: eval_nat_numeral)
    ultimately have "matches_template ''dddd-dd-ddTdd:dd:dd.dddddd'' (isoformat d)"
      unfolding i by (simp only:)
    then show ?thesis by (simp add: is_iso8601_def)
  qed
qed


lemma test_mode_events:
  assumes "test_mode c"
  shows "snd (get_api_response c w e) =
           Print (''[TEST MODE] Simulating request to '' @ e) #
           snd (save_to_file c w (mock_data w e) e) @ snd (save_to_mongodb c w (mock_data w e) e)"
proof -
  obtain r evs where sb: "save_both c w (mock_data w e) e = (r, evs)"
    by (cases "save_both c w (mock_data w e) e")
  then have "evs = snd (save_to_file c w (mock_data w e) e) @
      snd (save_to_mongodb c w (mock_data w e) e)"
    using save_both_events[of c w "mock_data w e" e] by simp
  then show ?thesis using assms sb by (simp add: get_api_response_def)
qed

lemma sinks_send_no_request:
  "filter is_http_event (snd (save_to_file c w d e)) = []"
  "filter is_http_event (snd (save_to_mongodb c w d e)) = []"
  by (simp_all add: save_to_file_def save_to_mongodb_def get_mongo_client_def mongo_insert_def
      Let_def split: option.splits sum.splits)

lemma dumped_document:
  "JsonDump p x \<in> set (snd (save_to_file c w d e)) \<Longrightarrow> x = d"
  "JsonDump p x \<notin> set (snd (save_to_mongodb c w d e))"
  "InsertOne db k doc \<notin> set (snd (save_to_file c w d e))"
  by (auto simp: save_to_file_def save_to_mongodb_def get_mongo_client_def mongo_insert_def
      Let_def split: option.splits sum.splits)

text \<open>The document reaches the file whenever the file can be opened, and the database
  whenever the client is there and the collection can be selected.\<close>

lemma dump_happens:
  assumes "file_open (io w e) = None"
  shows "JsonDump (path_join (output_dir c) (filename e)) d \<in> set (snd (save_to_file c w d e))"
  using assms by (simp add: save_to_file_def Let_def split: option.splits)

lemma insert_happens:
  assumes "mongo_client_new (io w e) = None" and "server_info (io w e) = None"
    and "mongo_select (io w e) = None"
  shows "InsertOne (mongo_db c) (mongo_collection c) (mongo_document c w d e)
           \<in> set (snd (save_to_mongodb c w d e))"
  using assms
  by (simp add: save_to_mongodb_def get_mongo_client_def mongo_insert_def
      split: option.splits sum.splits)

text \<open>No exception leaves the database sink when there is no client or closing it does not
  raise; the call in test mode then returns its document.\<close>

lemma sink_returns_without_client:
  assumes "\<not> fst (get_mongo_client c w e) \<or> client_close (io w e) = None"
  shows "\<exists>b. fst (save_to_mongodb c w d e) = Inr b"
  using assms no_client_nothing_to_close[of c w e d] sink_returns_unless_close_raises[of w e c d]
  by blast

lemma test_mode_return:
  assumes "test_mode c" and "\<not> fst (get_mongo_client c w e) \<or> client_close (io w e) = None"
  shows "fst (get_api_response c w e) = Inr (Some (mock_data w e))"
proof -
  obtain b where "fst (save_to_mongodb c w (mock_data w e) e) = Inr b"
    using sink_returns_without_client[OF assms(2)] by blast
  then have "\<exists>evs. save_both c w (mock_data w e) e = (Inr (Some (mock_data w e)), evs)"
    by (auto simp: save_both_def split: prod.splits sum.splits)
  then obtain evs where "save_both c w (mock_data w e) e = (Inr (Some (mock_data w e)), evs)"
    by blast
  then show ?thesis using assms(1) by (simp add: get_api_response_def)
qed

text \<open>
  Claim C3, as amended. In test mode a call sends no HTTP request and builds the document
  with exactly the keys \<^verbatim>\<open>endpoint\<close> (the endpoint), \<^verbatim>\<open>mock_data\<close> (\<^verbatim>\<open>True\<close>) and
  \<^verbatim>\<open>timestamp\<close> (the UTC clock in \<^verbatim>\<open>isoformat\<close>, an ISO-8601 string for every
  \<^verbatim>\<open>datetime\<close> value). After one printed line the call is exactly the file sink run on
  this document followed by the database sink run on this document, one write attempt
  each: the document is dumped whenever the file opens and embedded in the inserted record
  whenever the insertion is reached, and no other document is dumped or inserted. The call
  returns the document whenever there is no database client or closing it does not raise.
\<close>

theorem test_mode_document:
  assumes "test_mode c"
  shows "snd (get_api_response c w e) =
           Print (''[TEST MODE] Simulating request to '' @ e) #
           snd (save_to_file c w (mock_data w e) e) @ snd (save_to_mongodb c w (mock_data w e) e)
     \<and> filter is_http_event (snd (get_api_response c w e)) = []
     \<and> file_attempts (snd (get_api_response c w e)) = 1
     \<and> db_attempts (snd (get_api_response c w e)) = 1
     \<and> dict_keys (mock_data w e) = [''endpoint'', ''mock_data'', ''timestamp'']
     \<and> dict_get (mock_data w e) ''endpoint'' = Some (VStr e)
     \<and> dict_get (mock_data w e) ''mock_data'' = Some (VBool True)
     \<and> dict_get (mock_data w e) ''timestamp'' = Some (VStr (isoformat (utcnow_fetch (io w e))))
     \<and> (valid_datetime (utcnow_fetch (io w e)) \<longrightarrow> is_iso8601 (isoformat (utcnow_fetch (io w e))))
     \<and> (\<not> fst (get_mongo_client c w e) \<or> client_close (io w e) = None \<longrightarrow>
           fst (get_api_response c w e) = Inr (Some (mock_data w e)))
     \<and> (file_open (io w e) = None \<longrightarrow>
           JsonDump (path_join (output_dir c) (filename e)) (mock_data w e)
             \<in> set (snd (get_api_response c w e)))
     \<and> (\<forall>p x. JsonDump p x \<in> set (snd (get_api_response c w e)) \<longrightarrow> x = mock_data w e)
     \<and> (mongo_client_new (io w e) = None \<and> server_info (io w e) = None \<and>
         mongo_select (io w e) = None \<longrightarrow>
           InsertOne (mongo_db c) (mongo_collection c) (mongo_document c w (mock_data w e) e)
             \<in> set (snd (get_api_response c w e)))
     \<and> (\<forall>db k doc. InsertOne db k doc \<in> set (snd (get_api_response c w e)) \<longrightarrow>
           doc = mongo_document c w (mock_data w e) e \<and>
           dict_get doc ''data'' = Some (mock_data w e))"
proof (intro conjI allI impI)
  show "snd (get_api_response c w e) =
           Print (''[TEST MODE] Simulating request to '' @ e) #
           snd (save_to_file c w (mock_data w e) e) @ snd (save_to_mongodb c w (mock_data w e) e)"
    by (rule test_mode_events[OF assms])
  show "filter is_http_event (snd (get_api_response c w e)) = []"
    unfolding test_mode_events[OF assms] by (simp add: sinks_send_no_request)
  have d: "(test_mode c \<and> mock_data w e = mock_data w e) \<or>
           (\<not> test_mode c \<and> http_fetch c w e = Inr (mock_data w e))"
    using assms by simp
  show "file_attempts (snd (get_api_response c w e)) = 1"
    by (rule attempts_of_call(1)[OF d])
  show "db_attempts (snd (get_api_response c w e)) = 1"
    by (rule attempts_of_call(2)[OF d])
  show "dict_keys (mock_data w e) = [''endpoint'', ''mock_data'', ''timestamp'']"
    "dict_get (mock_data w e) ''endpoint'' = Some (VStr e)"
    "dict_get (mock_data w e) ''mock_data'' = Some (VBool True)"
    "dict_get (mock_data w e) ''timestamp'' = Some (VStr (isoformat (utcnow_fetch (io w e))))"
    by (simp_all add: mock_data_def)
next
  assume "valid_datetime (utcnow_fetch (io w e))"
  then show "is_iso8601 (isoformat (utcnow_fetch (io w e)))" by (rule isoformat_is_iso8601)
next
  assume "\<not> fst (get_mongo_client c w e) \<or> client_close (io w e) = None"
  then show "fst (get_api_response c w e) = Inr (Some (mock_data w e))"
    by (rule test_mode_return[OF assms])
next
  assume "file_open (io w e) = None"
  then have "JsonDump (path_join (output_dir c) (filename e)) (mock_data w e)
      \<in> set (snd (save_to_file c w (mock_data w e) e))" by (rule dump_happens)
  then show "JsonDump (path_join (output_dir c) (filename e)) (mock_data w e)
      \<in> set (snd (get_api_response c w e))"
    unfolding test_mode_events[OF assms] by simp
next
  fix p x assume "JsonDump p x \<in> set (snd (get_api_response c w e))"
  then have "JsonDump p x \<in> set (snd (save_to_file c w (mock_data w e) e))"
    unfolding test_mode_events[OF assms] using dumped_document(2) by auto
  then show "x = mock_data w e" by (rule dumped_document(1))
next
  assume "mongo_client_new (io w e) = None \<and> server_info (io w e) = None \<and>
         mongo_select (io w e) = None"
  then have "InsertOne (mongo_db c) (mongo_collection c) (mongo_document c w (mock_data w e) e)
      \<in> set (snd (save_to_mongodb c w (mock_data w e) e))"
    using insert_happens by blast
  then show "InsertOne (mongo_db c) (mongo_collection c) (mongo_document c w (mock_data w e) e)
      \<in> set (snd (get_api_response c w e))"
    unfolding test_mode_events[OF assms] by simp
next
  fix db k doc assume "InsertOne db k doc \<in> set (snd (get_api_response c w e))"
  then have "InsertOne db k doc \<in> set (snd (save_to_mongodb c w (mock_data w e) e))"
    unfolding test_mode_events[OF assms] using dumped_document(3) by auto
  from inserted_document[OF this] show doc: "doc = mongo_document c w (mock_data w e) e" by blast
  then show "dict_get doc ''data'' = Some (mock_data w e)" by (simp add: mongo_document_def)
qed

text \<open>The theorem at \<^verbatim>\<open>/redfish/v1\<close> with the clock at 2024-05-17 08:30:02.120045, in a
  world where every call succeeds.\<close>

theorem test_mode_document_witness:
  "test_mode (demo_collector\<lparr>test_mode := True\<rparr>)
   \<and> valid_datetime (utcnow_fetch (io demo_world ''/redfish/v1''))
   \<and> client_close (io demo_world ''/redfish/v1'') = None
   \<and> file_open (io demo_world ''/redfish/v1'') = None
   \<and> mongo_client_new (io demo_world ''/redfish/v1'') = None
   \<and> server_info (io demo_world ''/redfish/v1'') = None
   \<and> mongo_select (io demo_world ''/redfish/v1'') = None
   \<and> fst (get_api_response (demo_collector\<lparr>test_mode := True\<rparr>) demo_world ''/redfish/v1'') =
       Inr (Some (VDict [(''endpoint'', VStr ''/redfish/v1''), (''mock_data'', VBool True),
                         (''timestamp'', VStr ''2024-05-17T08:30:02.120045'')]))
   \<and> is_iso8601 ''2024-05-17T08:30:02.120045''
   \<and> JsonDump ''redfish_data/redfish_v1.json''
         (VDict [(''endpoint'', VStr ''/redfish/v1''), (''mock_data'', VBool True),
                 (''timestamp'', VStr ''2024-05-17T08:30:02.120045'')])
       \<in> set (snd (get_api_response (demo_collector\<lparr>test_mode := True\<rparr>) demo_world ''/redfish/v1''))
   \<and> InsertOne ''ilo'' ''redfish''
         (VDict [(''endpoint'', VStr ''/redfish/v1''),
                 (''data'', VDict [(''endpoint'', VStr ''/redfish/v1''), (''mock_data'', VBool True),
                                   (''timestamp'', VStr ''2024-05-17T08:30:02.120045'')]),
                 (''collection_date'', VDate demo_time),
                 (''source'', VStr ''https://ilo.example.com''), (''test_mode'', VBool True)])
       \<in> set (snd (get_api_response (demo_collector\<lparr>test_mode := True\<rparr>) demo_world ''/redfish/v1''))"
proof -
  let ?c = "demo_collector\<lparr>test_mode := True\<rparr>"
  let ?m = "VDict [(''endpoint'', VStr ''/redfish/v1''), (''mock_data'', VBool True),
                   (''timestamp'', VStr ''2024-05-17T08:30:02.120045'')]"
  have tm: "test_mode ?c" by simp
  have v: "valid_datetime (utcnow_fetch (io demo_world ''/redfish/v1''))"
    by (simp add: demo_defs demo_time_def valid_datetime_def)
  have cl: "client_close (io demo_world ''/redfish/v1'') = None"
    and fo: "file_open (io demo_world ''/redfish/v1'') = None"
    and db: "mongo_client_new (io demo_world ''/redfish/v1'') = None"
      "server_info (io demo_world ''/redfish/v1'') = None"
      "mongo_select (io demo_world ''/redfish/v1'') = None"
    by (simp_all add: demo_defs)
  have iso: "isoformat (utcnow_fetch (io demo_world ''/redfish/v1'')) = ''2024-05-17T08:30:02.120045''"
    by (simp add: demo_defs demo_time_def isoformat_def zpad_def show_nat.simps digit_char_def)
  have m: "mock_data demo_world ''/redfish/v1'' = ?m"
    unfolding mock_data_def iso ..
  have p: "path_join (output_dir ?c) (filename ''/redfish/v1'') = ''redfish_data/redfish_v1.json''"
    by (simp add: path_join_def filename_def py_strip_def py_replace_def demo_collector_def)
  have md: "mongo_document ?c demo_world ?m ''/redfish/v1'' =
      VDict [(''endpoint'', VStr ''/redfish/v1''), (''data'', ?m),
             (''collection_date'', VDate demo_time),
             (''source'', VStr ''https://ilo.example.com''), (''test_mode'', VBool True)]"
    by (simp add: mongo_document_def demo_defs)
  have n: "mongo_db ?c = ''ilo''" "mongo_collection ?c = ''redfish''"
    by (simp_all add: demo_collector_def)
  note t = test_mode_document[OF tm, of demo_world "''/redfish/v1''"]
  from t v have 1: "is_iso8601 ''2024-05-17T08:30:02.120045''" unfolding iso by blast
  from t cl have 2: "fst (get_api_response ?c demo_world ''/redfish/v1'') = Inr (Some ?m)"
    unfolding m by blast
  from t fo have 3: "JsonDump ''redfish_data/redfish_v1.json'' ?m
      \<in> set (snd (get_api_response ?c demo_world ''/redfish/v1''))"
    unfolding m p by blast
  from t db have 4: "InsertOne ''ilo'' ''redfish''
        (VDict [(''endpoint'', VStr ''/redfish/v1''), (''data'', ?m),
                (''collection_date'', VDate demo_time),
                (''source'', VStr ''https://ilo.example.com''), (''test_mode'', VBool True)])
      \<in> set (snd (get_api_response ?c demo_world ''/redfish/v1''))"
    unfolding m md n by blast
  from tm v cl fo db 1 2 3 4 show ?thesis by blast
qed

text \<open>
  Claim C3 as stated names the marker \<^verbatim>\<open>simulation_mode\<close>. The returned document has no
  such key; the marker is stored under \<^verbatim>\<open>mock_data\<close>.
\<close>

theorem mock_document_has_no_simulation_mode_counterexample:
  "test_mode (demo_collector\<lparr>test_mode := True\<rparr>)
   \<and> fst (get_api_response (demo_collector\<lparr>test_mode := True\<rparr>) demo_world ''/redfish/v1'') =
       Inr (Some (mock_data demo_world ''/redfish/v1''))
   \<and> dict_get (mock_data demo_world ''/redfish/v1'') ''simulation_mode'' = None
   \<and> dict_keys (mock_data demo_world ''/redfish/v1'') = [''endpoint'', ''mock_data'', ''timestamp'']"
  by (simp add: call_defs demo_defs Let_def)

end
